theory Spec2Isabelle
  imports Complex_Main "HOL-Library.Sublist" "HOL-Library.Char_ord" "HOL-Library.List_Lexorder"
    "HOL-Library.Product_Lexorder"
begin

chapter \<open>TennisNow: listing normalizers, date grouping and venue matching\<close>

text \<open>
  A shallow embedding of the data-transforming core of the crawler:
  \<^item> \<^verbatim>\<open>crawler/WebTrac/parse_webtrac_listing.py\<close>: \<^verbatim>\<open>TIME_RE\<close>,
    \<^verbatim>\<open>parse_listing_table_schedules\<close>, \<^verbatim>\<open>parse_listing_group_schedules\<close>;
  \<^item> \<^verbatim>\<open>crawler/WebTrac/fetch_schedule.py\<close>: the tail of \<^verbatim>\<open>fetch_schedule\<close>;
  \<^item> \<^verbatim>\<open>crawler/Xplor/xplor_schedule_fetcher.py\<close>: \<^verbatim>\<open>parse_schedule_data\<close>;
  \<^item> \<^verbatim>\<open>crawler/Facilitron/facilitron_agenda_analyzer.py\<close>: \<^verbatim>\<open>parse_agenda_data\<close>;
  \<^item> \<^verbatim>\<open>crawler/enrich_with_places.py\<close>: \<^verbatim>\<open>haversine_m\<close>, \<^verbatim>\<open>norm_name\<close>,
    \<^verbatim>\<open>choose_best_match\<close>, \<^verbatim>\<open>enrich\<close>.

  Python \<^verbatim>\<open>str\<close> values are modelled as \<^typ>\<open>string\<close>, a character being a code point below
  256 with Python's character classes and case mapping for it; text with code points
  from 256 on has no counterpart here. Python floats are modelled as \<^typ>\<open>real\<close>. Libraries that are not part of the repository (the HTML parser, the HTTP
  calls, \<^verbatim>\<open>rapidfuzz\<close>, \<^verbatim>\<open>datetime.strptime\<close>) appear as inputs: the parsed document tree,
  the responses, and function parameters.
\<close>

section \<open>Definitions\<close>

subsection \<open>Characters and strings\<close>

text \<open>
  A character is a code point below 256. The classes are Python's classes for \<^verbatim>\<open>str\<close> on
  these code points.
\<close>

text \<open>The pattern class \<^verbatim>\<open>\d\<close>.\<close>

definition is_digit :: "char \<Rightarrow> bool" where
  "is_digit c = (c \<in> set ''0123456789'')"

text \<open>
  White space as \<^verbatim>\<open>str.strip()\<close> and the pattern class \<^verbatim>\<open>\s\<close> see it; U+0085 and the
  no-break space U+00A0 are part of it.
\<close>

definition is_space :: "char \<Rightarrow> bool" where
  "is_space c = (c \<in> set [CHR '' '', CHR 0x09, CHR 0x0A, CHR 0x0B, CHR 0x0C, CHR 0x0D,
                            CHR 0x1C, CHR 0x1D, CHR 0x1E, CHR 0x1F, CHR 0x85, CHR 0xA0])"

definition upper_letters :: string where
  "upper_letters = ''ABCDEFGHIJKLMNOPQRSTUVWXYZ''"

definition lower_letters :: string where
  "lower_letters = ''abcdefghijklmnopqrstuvwxyz''"

text \<open>The capital letters U+00C0 to U+00DE (without the multiplication sign U+00D7).\<close>

definition upper_latin :: string where
  "upper_latin = [CHR 0xC0, CHR 0xC1, CHR 0xC2, CHR 0xC3, CHR 0xC4, CHR 0xC5, CHR 0xC6, CHR 0xC7,
                   CHR 0xC8, CHR 0xC9, CHR 0xCA, CHR 0xCB, CHR 0xCC, CHR 0xCD, CHR 0xCE, CHR 0xCF,
                   CHR 0xD0, CHR 0xD1, CHR 0xD2, CHR 0xD3, CHR 0xD4, CHR 0xD5, CHR 0xD6, CHR 0xD8,
                   CHR 0xD9, CHR 0xDA, CHR 0xDB, CHR 0xDC, CHR 0xDD, CHR 0xDE]"

text \<open>Their small letters, U+00E0 to U+00FE (without the division sign U+00F7).\<close>

definition lower_latin :: string where
  "lower_latin = [CHR 0xE0, CHR 0xE1, CHR 0xE2, CHR 0xE3, CHR 0xE4, CHR 0xE5, CHR 0xE6, CHR 0xE7,
                   CHR 0xE8, CHR 0xE9, CHR 0xEA, CHR 0xEB, CHR 0xEC, CHR 0xED, CHR 0xEE, CHR 0xEF,
                   CHR 0xF0, CHR 0xF1, CHR 0xF2, CHR 0xF3, CHR 0xF4, CHR 0xF5, CHR 0xF6, CHR 0xF8,
                   CHR 0xF9, CHR 0xFA, CHR 0xFB, CHR 0xFC, CHR 0xFD, CHR 0xFE]"

text \<open>The letters without a case partner here: U+00AA, U+00B5, U+00BA, U+00DF, U+00FF.\<close>

definition caseless_latin :: string where
  "caseless_latin = [CHR 0xAA, CHR 0xB5, CHR 0xBA, CHR 0xDF, CHR 0xFF]"

text \<open>The superscript digits and the fractions: U+00B2, U+00B3, U+00B9, U+00BC to U+00BE.\<close>

definition numeric_latin :: string where
  "numeric_latin = [CHR 0xB2, CHR 0xB3, CHR 0xB9, CHR 0xBC, CHR 0xBD, CHR 0xBE]"

definition is_letter :: "char \<Rightarrow> bool" where
  "is_letter c = (c \<in> set upper_letters \<or> c \<in> set lower_letters \<or> c \<in> set upper_latin
                  \<or> c \<in> set lower_latin \<or> c \<in> set caseless_latin)"

text \<open>The pattern class \<^verbatim>\<open>\w\<close>, which decides where \<^verbatim>\<open>\b\<close> holds.\<close>

definition is_word :: "char \<Rightarrow> bool" where
  "is_word c = (is_digit c \<or> is_letter c \<or> c \<in> set numeric_latin \<or> c = CHR ''_'')"

definition lower_char :: "char \<Rightarrow> char" where
  "lower_char c =
     (case map_of (zip (upper_letters @ upper_latin) (lower_letters @ lower_latin)) c of
        Some d \<Rightarrow> d
      | None \<Rightarrow> c)"

text \<open>\<^verbatim>\<open>s.lower()\<close>\<close>

definition lower :: "string \<Rightarrow> string" where
  "lower s = map lower_char s"

text \<open>\<^verbatim>\<open>s.strip()\<close>\<close>

definition strip :: "string \<Rightarrow> string" where
  "strip s = rev (dropWhile is_space (rev (dropWhile is_space s)))"

text \<open>\<^verbatim>\<open>needle in haystack\<close> on strings: \<open>needle\<close> occurs as a contiguous piece.\<close>

fun starts_with :: "string \<Rightarrow> string \<Rightarrow> bool" where
  "starts_with [] s = True"
| "starts_with (p # ps) [] = False"
| "starts_with (p # ps) (c # cs) = (p = c \<and> starts_with ps cs)"

fun contains :: "string \<Rightarrow> string \<Rightarrow> bool" where
  "contains needle [] = (needle = [])"
| "contains needle (c # cs) = (starts_with needle (c # cs) \<or> contains needle cs)"

text \<open>\<^verbatim>\<open>sep.join(parts)\<close>\<close>

fun join :: "string \<Rightarrow> string list \<Rightarrow> string" where
  "join sep [] = []"
| "join sep [x] = x"
| "join sep (x # y # ys) = x @ sep @ join sep (y # ys)"

subsection \<open>Regular expressions\<close>

text \<open>
  The fragment of Python's \<^verbatim>\<open>re\<close> syntax that \<^verbatim>\<open>TIME_RE\<close> is written in: character classes
  \<^verbatim>\<open>\d\<close> and \<^verbatim>\<open>\s\<close>, literal characters (compared case-insensitively under \<^verbatim>\<open>re.I\<close>),
  \<^verbatim>\<open>X*\<close> of a class, concatenation and alternation. \<^verbatim>\<open>fullmatch\<close> is decided by
  derivatives: whether some way of matching consumes the whole string, which is what the
  backtracking matcher finds out.
\<close>

datatype cset = Digit | Space | Lit char | LitI char

fun in_cset :: "cset \<Rightarrow> char \<Rightarrow> bool" where
  "in_cset Digit c = is_digit c"
| "in_cset Space c = is_space c"
| "in_cset (Lit a) c = (c = a)"
| "in_cset (LitI a) c = (lower_char c = lower_char a)"

datatype regex = Fail | Eps | Sym cset | Many cset | Cat regex regex | Or regex regex

fun nullable :: "regex \<Rightarrow> bool" where
  "nullable Fail = False"
| "nullable Eps = True"
| "nullable (Sym cs) = False"
| "nullable (Many cs) = True"
| "nullable (Cat r s) = (nullable r \<and> nullable s)"
| "nullable (Or r s) = (nullable r \<or> nullable s)"

fun deriv :: "char \<Rightarrow> regex \<Rightarrow> regex" where
  "deriv c Fail = Fail"
| "deriv c Eps = Fail"
| "deriv c (Sym cs) = (if in_cset cs c then Eps else Fail)"
| "deriv c (Many cs) = (if in_cset cs c then Many cs else Fail)"
| "deriv c (Cat r s) =
     (if nullable r then Or (Cat (deriv c r) s) (deriv c s) else Cat (deriv c r) s)"
| "deriv c (Or r s) = Or (deriv c r) (deriv c s)"

fun re_fullmatch :: "regex \<Rightarrow> string \<Rightarrow> bool" where
  "re_fullmatch r [] = nullable r"
| "re_fullmatch r (c # cs) = re_fullmatch (deriv c r) cs"

text \<open>The set of strings a pattern stands for (used in proofs only).\<close>

fun lang :: "regex \<Rightarrow> string set" where
  "lang Fail = {}"
| "lang Eps = {[]}"
| "lang (Sym cs) = {[c] | c. in_cset cs c}"
| "lang (Many cs) = {s. \<forall>c \<in> set s. in_cset cs c}"
| "lang (Cat r s) = {u @ v | u v. u \<in> lang r \<and> v \<in> lang s}"
| "lang (Or r s) = lang r \<union> lang s"

subsection \<open>The time-slot recognizer \<^verbatim>\<open>TIME_RE\<close>\<close>

text \<open>
  \<^verbatim>\<open>TIME_RE = re.compile(r"\b\d{1,2}:\d{2}\s*(?:am|pm)\s*-\s*\d{1,2}:\d{2}\s*(?:am|pm)\b", re.I)\<close>
\<close>

definition ws :: regex where
  "ws = Many Space"

definition digit :: regex where
  "digit = Sym Digit"

definition opt :: "regex \<Rightarrow> regex" where
  "opt r = Or r Eps"

definition ampm :: regex where
  "ampm = Or (Cat (Sym (LitI CHR ''a'')) (Sym (LitI CHR ''m'')))
             (Cat (Sym (LitI CHR ''p'')) (Sym (LitI CHR ''m'')))"

text \<open>\<^verbatim>\<open>\d{1,2}:\d{2}\s*(?:am|pm)\<close>\<close>

definition clock :: regex where
  "clock = Cat digit (Cat (opt digit) (Cat (Sym (Lit CHR '':''))
             (Cat digit (Cat digit (Cat ws ampm)))))"

text \<open>The pattern between the two \<^verbatim>\<open>\b\<close> assertions.\<close>

definition TIME_RE_body :: regex where
  "TIME_RE_body = Cat clock (Cat ws (Cat (Sym (Lit CHR ''-'')) (Cat ws clock)))"

definition first_char :: "string \<Rightarrow> char option" where
  "first_char s = (case s of [] \<Rightarrow> None | c # _ \<Rightarrow> Some c)"

definition last_char :: "string \<Rightarrow> char option" where
  "last_char s = first_char (rev s)"

text \<open>
  \<^verbatim>\<open>\b\<close> between two neighbouring positions: exactly one side is a word character (the
  outside of the string counts as a non-word character).
\<close>

definition word_boundary :: "char option \<Rightarrow> char option \<Rightarrow> bool" where
  "word_boundary left right =
     ((case left of None \<Rightarrow> False | Some c \<Rightarrow> is_word c) \<noteq>
      (case right of None \<Rightarrow> False | Some c \<Rightarrow> is_word c))"

text \<open>
  \<^verbatim>\<open>TIME_RE.fullmatch(s)\<close> as a truth value: the first \<^verbatim>\<open>\b\<close> is tested at offset 0, the
  body has to consume the whole string, and the last \<^verbatim>\<open>\b\<close> is tested at the end.
\<close>

definition TIME_RE_fullmatch :: "string \<Rightarrow> bool" where
  "TIME_RE_fullmatch s =
     (word_boundary None (first_char s) \<and> re_fullmatch TIME_RE_body s \<and>
      word_boundary (last_char s) None)"

text \<open>
  The strings the specification's grammar \<^verbatim>\<open>H:MM am|pm - H:MM am|pm\<close> describes, and what
  it means for a string to carry the hyphen and the am/pm suffixes.
\<close>

definition digit_char :: "nat \<Rightarrow> char" where
  "digit_char n = ''0123456789'' ! n"

definition show_hour :: "nat \<Rightarrow> string" where
  "show_hour h = (if h < 10 then [digit_char h] else [digit_char (h div 10), digit_char (h mod 10)])"

definition show_minute :: "nat \<Rightarrow> string" where
  "show_minute m = [digit_char (m div 10), digit_char (m mod 10)]"

definition is_ampm :: "string \<Rightarrow> bool" where
  "is_ampm t = (lower t = ''am'' \<or> lower t = ''pm'')"

definition slot_text :: "nat \<Rightarrow> nat \<Rightarrow> string \<Rightarrow> nat \<Rightarrow> nat \<Rightarrow> string \<Rightarrow> string" where
  "slot_text h1 m1 s1 h2 m2 s2 =
     show_hour h1 @ '':'' @ show_minute m1 @ '' '' @ s1 @ '' - '' @
     show_hour h2 @ '':'' @ show_minute m2 @ '' '' @ s2"

definition left_of_hyphen :: "string \<Rightarrow> string" where
  "left_of_hyphen s = takeWhile (\<lambda>c. c \<noteq> CHR ''-'') s"

definition right_of_hyphen :: "string \<Rightarrow> string" where
  "right_of_hyphen s = drop 1 (dropWhile (\<lambda>c. c \<noteq> CHR ''-'') s)"

text \<open>The text, trailing white space apart, ends in am or pm (in either case).\<close>

definition has_ampm_suffix :: "string \<Rightarrow> bool" where
  "has_ampm_suffix t =
     (case dropWhile is_space (rev t) of y # x # _ \<Rightarrow> is_ampm [x, y] | _ \<Rightarrow> False)"

subsection \<open>The parsed document\<close>

text \<open>
  The tree \<^verbatim>\<open>BeautifulSoup(html, "html.parser")\<close> hands to the code: text nodes, and elements
  with a tag name, the tokens of the \<^verbatim>\<open>class\<close> attribute (which the library keeps as a
  list), the other attributes and the children. The root of a document is the soup object,
  an element of its own.
\<close>

datatype node = Text string | Element string "string list" "(string \<times> string) list" "node list"

fun is_tag :: "string \<Rightarrow> node \<Rightarrow> bool" where
  "is_tag name (Text s) = False"
| "is_tag name (Element t cls atts cs) = (t = name)"

text \<open>\<^verbatim>\<open>el.get("class", [])\<close>\<close>

fun get_classes :: "node \<Rightarrow> string list" where
  "get_classes (Text s) = []"
| "get_classes (Element t cls atts cs) = cls"

text \<open>\<^verbatim>\<open>el.get(name)\<close> for the other attributes\<close>

fun get_attr :: "node \<Rightarrow> string \<Rightarrow> string option" where
  "get_attr (Text s) name = None"
| "get_attr (Element t cls atts cs) name = map_of atts name"

text \<open>\<^verbatim>\<open>el.get(name, default)\<close>\<close>

definition get_attr_or :: "node \<Rightarrow> string \<Rightarrow> string \<Rightarrow> string" where
  "get_attr_or el name dflt = (case get_attr el name of None \<Rightarrow> dflt | Some v \<Rightarrow> v)"

fun child_nodes :: "node \<Rightarrow> node list" where
  "child_nodes (Text s) = []"
| "child_nodes (Element t cls atts cs) = cs"

text \<open>All nodes below a node, in document order.\<close>

fun descendants :: "node \<Rightarrow> node list" where
  "descendants (Text s) = []"
| "descendants (Element t cls atts cs) = concat (map (\<lambda>c. c # descendants c) cs)"

text \<open>
  The same walk, each node paired with its ancestors (nearest first); the first argument
  is the ancestors of the starting node.
\<close>

fun walk :: "node list \<Rightarrow> node \<Rightarrow> (node list \<times> node) list" where
  "walk anc (Text s) = []"
| "walk anc (Element t cls atts cs) =
     concat (map (\<lambda>c. (Element t cls atts cs # anc, c) # walk (Element t cls atts cs # anc) c) cs)"

text \<open>The text nodes below (or at) a node, in document order.\<close>

fun strings :: "node \<Rightarrow> string list" where
  "strings (Text s) = [s]"
| "strings (Element t cls atts cs) = concat (map strings cs)"

text \<open>\<^verbatim>\<open>el.get_text(strip=True)\<close>: every string stripped, the empty ones dropped, the rest joined.\<close>

definition get_text_strip :: "node \<Rightarrow> string" where
  "get_text_strip el = concat (filter (\<lambda>s. s \<noteq> []) (map strip (strings el)))"

text \<open>\<^verbatim>\<open>el.find_all(name)\<close>, \<^verbatim>\<open>el.find_all(name, recursive=False)\<close> and \<^verbatim>\<open>el.find(...)\<close>\<close>

definition find_all :: "(node \<Rightarrow> bool) \<Rightarrow> node \<Rightarrow> node list" where
  "find_all p el = filter p (descendants el)"

definition find_children :: "(node \<Rightarrow> bool) \<Rightarrow> node \<Rightarrow> node list" where
  "find_children p el = filter p (child_nodes el)"

definition find_first :: "(node \<Rightarrow> bool) \<Rightarrow> node \<Rightarrow> node option" where
  "find_first p el = (case find_all p el of [] \<Rightarrow> None | x # _ \<Rightarrow> Some x)"

definition has_class :: "string \<Rightarrow> node \<Rightarrow> bool" where
  "has_class c el = (c \<in> set (get_classes el))"

definition attr_is :: "string \<Rightarrow> string \<Rightarrow> node \<Rightarrow> bool" where
  "attr_is name v el = (get_attr el name = Some v)"

text \<open>The attribute is present and \<open>needle\<close> occurs in its value (\<^verbatim>\<open>[href*="..."]\<close>).\<close>

definition attr_contains :: "string \<Rightarrow> string \<Rightarrow> node \<Rightarrow> bool" where
  "attr_contains name needle el =
     (case get_attr el name of None \<Rightarrow> False | Some v \<Rightarrow> contains needle v)"

text \<open>
  A chain of descendant combinators, innermost requirement first, against the ancestors
  of an element (nearest first): each requirement is met by an ancestor further out than
  the one before.
\<close>

fun has_ancestors :: "(node \<Rightarrow> bool) list \<Rightarrow> node list \<Rightarrow> bool" where
  "has_ancestors [] anc = True"
| "has_ancestors (p # ps) [] = False"
| "has_ancestors (p # ps) (a # anc) =
     ((p a \<and> has_ancestors ps anc) \<or> has_ancestors (p # ps) anc)"

subsection \<open>The listing normalizers\<close>

record facility =
  fmid :: "string option"
  label :: "string option"
  location :: "string option"
  available_slots :: "string list"
  unavailable_slots :: "string list"

text \<open>\<^verbatim>\<open>re.search(r"[?&]FMID=(\d+)", href)\<close> and \<^verbatim>\<open>m.group(1)\<close>: the leftmost match, the digits greedily.\<close>

fun search_fmid :: "string \<Rightarrow> string option" where
  "search_fmid [] = None"
| "search_fmid (c # cs) =
     (if (c = CHR ''?'' \<or> c = CHR ''&'') \<and> starts_with ''FMID='' cs
         \<and> takeWhile is_digit (drop 5 cs) \<noteq> []
      then Some (takeWhile is_digit (drop 5 cs))
      else search_fmid cs)"

text \<open>
  \<^verbatim>\<open>if link and link.has_attr("href"): m = re.search(...); if m: fmid = m.group(1)\<close>
\<close>

definition fmid_of_link :: "node option \<Rightarrow> string option" where
  "fmid_of_link link =
     (case link of None \<Rightarrow> None
      | Some a \<Rightarrow> (case get_attr a ''href'' of None \<Rightarrow> None | Some href \<Rightarrow> search_fmid href))"

text \<open>\<^verbatim>\<open>el.select("a.cart-button")\<close>\<close>

definition select_cart_buttons :: "node \<Rightarrow> node list" where
  "select_cart_buttons el = find_all (\<lambda>a. is_tag ''a'' a \<and> has_class ''cart-button'' a) el"

text \<open>
  The two tests of the slot loop, on \<^verbatim>\<open>classes = " ".join(a.get("class", [])).lower()\<close> and
  \<^verbatim>\<open>tooltip = a.get("data-tooltip", "").lower()\<close>.
\<close>

definition joined_classes :: "node \<Rightarrow> string" where
  "joined_classes a = lower (join '' '' (get_classes a))"

definition tooltip_of :: "node \<Rightarrow> string" where
  "tooltip_of a = lower (get_attr_or a ''data-tooltip'' [])"

definition available_test :: "node \<Rightarrow> bool" where
  "available_test a = (contains ''success'' (joined_classes a) \<and> contains ''book now'' (tooltip_of a))"

definition unavailable_test :: "node \<Rightarrow> bool" where
  "unavailable_test a = (contains ''error'' (joined_classes a) \<and> contains ''unavailable'' (tooltip_of a))"

text \<open>
  One round of the loop over the slot anchors, on the pair of lists \<^verbatim>\<open>(available, unavailable)\<close>.
  The loop is written out twice in the source, with the same body.
\<close>

definition slot_step :: "node \<Rightarrow> string list \<times> string list \<Rightarrow> string list \<times> string list" where
  "slot_step a acc =
     (if available_test a then
        (let time_txt = get_text_strip a
         in if TIME_RE_fullmatch time_txt then (fst acc @ [time_txt], snd acc) else acc)
      else if unavailable_test a then
        (case find_all (is_tag ''span'') a of
           [] \<Rightarrow> acc
         | sp # _ \<Rightarrow>
             (let time_txt = get_text_strip sp
              in if TIME_RE_fullmatch time_txt then (fst acc, snd acc @ [time_txt]) else acc))
      else acc)"

definition slot_loop :: "node list \<Rightarrow> string list \<times> string list" where
  "slot_loop anchors = foldl (\<lambda>acc a. slot_step a acc) ([], []) anchors"

text \<open>
  For the statements about the two lists: the anchor \<open>a\<close> is classified available and reads
  \<open>s\<close>; it is classified unavailable and its first span reads \<open>s\<close>; and, among some anchors,
  one of each kind reads \<open>s\<close>.
\<close>

definition reads_available :: "node \<Rightarrow> string \<Rightarrow> bool" where
  "reads_available a s = (available_test a \<and> get_text_strip a = s \<and> TIME_RE_fullmatch s)"

definition reads_unavailable :: "node \<Rightarrow> string \<Rightarrow> bool" where
  "reads_unavailable a s =
     (\<not> available_test a \<and> unavailable_test a \<and>
      (case find_all (is_tag ''span'') a of
         [] \<Rightarrow> False
       | sp # _ \<Rightarrow> get_text_strip sp = s \<and> TIME_RE_fullmatch s))"

definition clash :: "node list \<Rightarrow> string \<Rightarrow> bool" where
  "clash anchors s =
     (\<exists>a \<in> set anchors. \<exists>b \<in> set anchors. reads_available a s \<and> reads_unavailable b s)"

text \<open>Python's \<^verbatim>\<open>not s\<close> for a value that is \<^verbatim>\<open>None\<close> or a string.\<close>

definition falsy :: "string option \<Rightarrow> bool" where
  "falsy v = (v = None \<or> v = Some [])"

text \<open>
  The loop over the label cells of a facility row, on the pair \<^verbatim>\<open>(facility, location)\<close>.
\<close>

definition label_step :: "node \<Rightarrow> string option \<times> string option \<Rightarrow> string option \<times> string option" where
  "label_step td acc =
     (let title = get_attr_or td ''data-title'' []
      in if title = ''Facility Description'' \<and> falsy (fst acc) then (Some (get_text_strip td), snd acc)
         else if title = ''Location Description'' \<and> falsy (snd acc) then (fst acc, Some (get_text_strip td))
         else acc)"

definition label_cells :: "node \<Rightarrow> node list" where
  "label_cells row = find_all (\<lambda>td. is_tag ''td'' td \<and> has_class ''label-cell'' td) row"

text \<open>\<^verbatim>\<open>row.find("a", href=re.compile(r"iteminfo\.html\?", re.I))\<close>\<close>

definition details_link :: "node \<Rightarrow> node option" where
  "details_link row =
     find_first (\<lambda>a. is_tag ''a'' a \<and>
        (case get_attr a ''href'' of None \<Rightarrow> False | Some h \<Rightarrow> contains ''iteminfo.html?'' (lower h))) row"

text \<open>
  The body of the \<^verbatim>\<open>while\<close> loop for a row with label cells; \<open>cart_row\<close> is \<^verbatim>\<open>rows[i + 1]\<close>
  when \<^verbatim>\<open>i + 1 < len(rows)\<close>.
\<close>

definition table_facility :: "node \<Rightarrow> node option \<Rightarrow> facility" where
  "table_facility row cart_row =
     (let fl = foldl (\<lambda>acc td. label_step td acc) (None, None) (label_cells row);
          slots = (case cart_row of None \<Rightarrow> ([], []) | Some r \<Rightarrow> slot_loop (select_cart_buttons r))
      in \<lparr> fmid = fmid_of_link (details_link row), label = fst fl, location = snd fl,
           available_slots = fst slots, unavailable_slots = snd slots \<rparr>)"

text \<open>
  \<^verbatim>\<open>while i < len(rows)\<close>: a row without label cells is stepped over (\<^verbatim>\<open>i += 1\<close>), a facility
  row takes the row after it with it (\<^verbatim>\<open>i += 2\<close>).
\<close>

fun table_rows :: "node list \<Rightarrow> facility list" where
  "table_rows [] = []"
| "table_rows [row] = (if label_cells row = [] then [] else [table_facility row None])"
| "table_rows (row # cart_row # rest) =
     (if label_cells row = [] then table_rows (cart_row # rest)
      else table_facility row (Some cart_row) # table_rows rest)"

text \<open>
  The rows the loop makes a record of, each with the row after it (\<open>None\<close> at the end of
  the list).
\<close>

fun row_blocks :: "node list \<Rightarrow> (node \<times> node option) list" where
  "row_blocks [] = []"
| "row_blocks [row] = (if label_cells row = [] then [] else [(row, None)])"
| "row_blocks (row # cart_row # rest) =
     (if label_cells row = [] then row_blocks (cart_row # rest)
      else (row, Some cart_row) # row_blocks rest)"

text \<open>\<^verbatim>\<open>soup.find("table", id="frwebsearch_output_table")\<close>\<close>

definition is_results_table :: "node \<Rightarrow> bool" where
  "is_results_table e = (is_tag ''table'' e \<and> attr_is ''id'' ''frwebsearch_output_table'' e)"

definition parse_listing_table_schedules :: "node \<Rightarrow> facility list" where
  "parse_listing_table_schedules soup =
     (case find_first is_results_table soup of
        None \<Rightarrow> []
      | Some table \<Rightarrow>
          (case find_first (is_tag ''tbody'') table of
             None \<Rightarrow> []
           | Some tbody \<Rightarrow> table_rows (find_children (is_tag ''tr'') tbody)))"

text \<open>The rows of the results table: \<^verbatim>\<open>rows\<close>, or no row when the function returns early.\<close>

definition listing_rows :: "node \<Rightarrow> node list" where
  "listing_rows soup =
     (case find_first is_results_table soup of
        None \<Rightarrow> []
      | Some table \<Rightarrow>
          (case find_first (is_tag ''tbody'') table of
             None \<Rightarrow> []
           | Some tbody \<Rightarrow> find_children (is_tag ''tr'') tbody))"

text \<open>
  The card layout. \<^verbatim>\<open>select\<close> and \<^verbatim>\<open>select_one\<close> look below the element they are called
  on, and a descendant combinator may be met by any ancestor, so the cards are carried
  with their ancestors.
\<close>

definition find_with_ancestors :: "(node \<Rightarrow> bool) \<Rightarrow> node list \<Rightarrow> node \<Rightarrow> (node list \<times> node) list" where
  "find_with_ancestors p anc el = filter (\<lambda>(a, e). p e) (walk anc el)"

text \<open>\<^verbatim>\<open>.header.result-header .result-header__info h2 span\<close>\<close>

definition header_span :: "node list \<times> node \<Rightarrow> bool" where
  "header_span ae =
     (is_tag ''span'' (snd ae) \<and>
      has_ancestors [is_tag ''h2'', has_class ''result-header__info'',
                     (\<lambda>e. has_class ''header'' e \<and> has_class ''result-header'' e)] (fst ae))"

definition card_label :: "node list \<Rightarrow> node \<Rightarrow> string option" where
  "card_label anc card_el =
     (case filter header_span (walk anc card_el) of
        [] \<Rightarrow> None
      | (a, header) # _ \<Rightarrow>
          (if get_text_strip header \<noteq> [] then Some (get_text_strip header) else None))"

definition card_facility :: "node list \<times> node \<Rightarrow> facility" where
  "card_facility ac =
     (let card_el = snd ac;
          link = find_first (\<lambda>a. is_tag ''a'' a \<and> attr_contains ''href'' ''iteminfo.html?'' a
                                  \<and> attr_contains ''href'' ''FMID='' a) card_el;
          loc_label = find_first (\<lambda>td. is_tag ''td'' td \<and> attr_is ''data-title'' ''Location Description'' td) card_el;
          slots = slot_loop (select_cart_buttons card_el)
      in \<lparr> fmid = fmid_of_link link, label = card_label (fst ac) card_el,
           location = map_option get_text_strip loc_label,
           available_slots = fst slots, unavailable_slots = snd slots \<rparr>)"

definition parse_listing_group_schedules :: "node \<Rightarrow> facility list" where
  "parse_listing_group_schedules soup =
     (case find_with_ancestors (attr_is ''id'' ''frwebsearch_nextgencontrolsgroup'') [] soup of
        [] \<Rightarrow> []
      | (anc, container) # _ \<Rightarrow>
          map card_facility (find_with_ancestors (has_class ''result-content'') anc container))"

text \<open>The cards of the card layout, with their ancestors: \<^verbatim>\<open>container.select(".result-content")\<close>.\<close>

definition result_cards :: "node \<Rightarrow> (node list \<times> node) list" where
  "result_cards soup =
     (case find_with_ancestors (attr_is ''id'' ''frwebsearch_nextgencontrolsgroup'') [] soup of
        [] \<Rightarrow> []
      | (anc, container) # _ \<Rightarrow> find_with_ancestors (has_class ''result-content'') anc container)"

subsection \<open>The schedule assembler\<close>


text \<open>The exceptions the modelled code can raise.\<close>

datatype error = IndexError | KeyError | AttributeError | TypeError






subsection \<open>JSON payloads\<close>

text \<open>
  The values \<^verbatim>\<open>json.loads\<close> produces: \<^verbatim>\<open>None\<close>, booleans, numbers (as reals), strings,
  lists and dictionaries (an association list; a lookup takes the first binding).
\<close>

datatype json = JNull | JBool bool | JNum real | JStr string | JArr "json list"
  | JObj "(string \<times> json) list"

text \<open>Python's truth value of a JSON value.\<close>

fun truthy :: "json \<Rightarrow> bool" where
  "truthy JNull = False"
| "truthy (JBool b) = b"
| "truthy (JNum x) = (x \<noteq> 0)"
| "truthy (JStr s) = (s \<noteq> [])"
| "truthy (JArr xs) = (xs \<noteq> [])"
| "truthy (JObj kvs) = (kvs \<noteq> [])"

text \<open>\<^verbatim>\<open>key in v\<close> for a string \<open>key\<close>.\<close>

fun py_in :: "string \<Rightarrow> json \<Rightarrow> error + bool" where
  "py_in k (JObj kvs) = Inr (k \<in> set (map fst kvs))"
| "py_in k (JArr xs) = Inr (JStr k \<in> set xs)"
| "py_in k (JStr s) = Inr (contains k s)"
| "py_in k v = Inl TypeError"

text \<open>\<^verbatim>\<open>for x in v\<close>: the elements of a list, the keys of a dictionary, the characters of a string.\<close>

fun py_iter :: "json \<Rightarrow> error + json list" where
  "py_iter (JArr xs) = Inr xs"
| "py_iter (JObj kvs) = Inr (map (\<lambda>kv. JStr (fst kv)) kvs)"
| "py_iter (JStr s) = Inr (map (\<lambda>c. JStr [c]) s)"
| "py_iter v = Inl TypeError"

text \<open>\<^verbatim>\<open>len(v)\<close>\<close>

definition py_len :: "json \<Rightarrow> error + nat" where
  "py_len v = (case py_iter v of Inl e \<Rightarrow> Inl e | Inr xs \<Rightarrow> Inr (length xs))"

text \<open>\<^verbatim>\<open>v[key]\<close> for a string \<open>key\<close>.\<close>

fun py_getitem :: "json \<Rightarrow> string \<Rightarrow> error + json" where
  "py_getitem (JObj kvs) k = (case map_of kvs k of None \<Rightarrow> Inl KeyError | Some v \<Rightarrow> Inr v)"
| "py_getitem v k = Inl TypeError"

subsection \<open>Date grouping: \<^verbatim>\<open>parse_schedule_data\<close>\<close>

definition date_fields :: "string list" where
  "date_fields = [''Date'', ''StartDate'', ''date'', ''startDate'', ''StartTime'']"

text \<open>The field at which the loop over \<^verbatim>\<open>date_fields\<close> reaches its \<^verbatim>\<open>break\<close>.\<close>

definition first_date_field :: "(string \<times> json) list \<Rightarrow> string option" where
  "first_date_field kvs = find (\<lambda>f. f \<in> set (map fst kvs)) date_fields"

text \<open>
  What the loop leaves in \<^verbatim>\<open>availability_date\<close> for the value of that field (\<open>None\<close> is
  Python's \<^verbatim>\<open>None\<close>). \<open>mdy_to_iso\<close> stands for
  \<^verbatim>\<open>datetime.strptime(date_value, '%m/%d/%y').strftime('%Y-%m-%d')\<close>, with \<open>None\<close> when it
  raises and the bare \<^verbatim>\<open>except\<close> keeps the text as it is.
\<close>

fun date_of_value :: "(string \<Rightarrow> string option) \<Rightarrow> json \<Rightarrow> json option" where
  "date_of_value mdy_to_iso (JStr s) =
     (if CHR ''T'' \<in> set s then Some (JStr (takeWhile (\<lambda>c. c \<noteq> CHR ''T'') s))
      else if CHR ''/'' \<in> set s then
        (case mdy_to_iso s of Some ymd \<Rightarrow> Some (JStr ymd) | None \<Rightarrow> Some (JStr s))
      else Some (JStr s))"
| "date_of_value mdy_to_iso (JObj d) = map_of d ''date''"
| "date_of_value mdy_to_iso v = None"

definition availability_date :: "(string \<Rightarrow> string option) \<Rightarrow> (string \<times> json) list \<Rightarrow> json option" where
  "availability_date mdy_to_iso kvs =
     (case first_date_field kvs of
        None \<Rightarrow> None
      | Some f \<Rightarrow> (case map_of kvs f of None \<Rightarrow> None | Some v \<Rightarrow> date_of_value mdy_to_iso v))"

text \<open>
  Dictionary keys. Strings and numbers can be keys (\<^verbatim>\<open>True\<close> and \<^verbatim>\<open>1\<close> are the same key);
  lists and dictionaries are unhashable. \<^verbatim>\<open>None\<close> never gets here, being falsy.
\<close>

datatype dict_key = KStr string | KNum real

fun hash_key :: "json \<Rightarrow> error + dict_key" where
  "hash_key (JStr s) = Inr (KStr s)"
| "hash_key (JNum x) = Inr (KNum x)"
| "hash_key (JBool b) = Inr (KNum (if b then 1 else 0))"
| "hash_key v = Inl TypeError"

text \<open>
  \<^verbatim>\<open>availabilities_by_date\<close>, in insertion order: the key, the key object as first
  inserted, and the list of the key.
\<close>

type_synonym date_dict = "(dict_key \<times> json \<times> json list) list"

text \<open>
  \<^verbatim>\<open>if d not in by_date: by_date[d] = []\<close> and then \<^verbatim>\<open>by_date[d].append(availability)\<close>
\<close>

fun dict_append :: "dict_key \<Rightarrow> json \<Rightarrow> json \<Rightarrow> date_dict \<Rightarrow> date_dict" where
  "dict_append k d x [] = [(k, d, [x])]"
| "dict_append k d x ((k', d', xs) # rest) =
     (if k' = k then (k', d', xs @ [x]) # rest else (k', d', xs) # dict_append k d x rest)"

text \<open>
  One round of \<^verbatim>\<open>for availability in availabilities\<close>. \<open>resolve\<close> is the inner loop over
  the date fields; the Xplor and the Facilitron parser differ in it alone.
\<close>

definition group_step :: "((string \<times> json) list \<Rightarrow> json option) \<Rightarrow> json \<Rightarrow> date_dict \<Rightarrow> error + date_dict" where
  "group_step resolve availability by_date =
     (case availability of
        JObj kvs \<Rightarrow>
          (case resolve kvs of
             None \<Rightarrow> Inr by_date
           | Some d \<Rightarrow>
               (if truthy d then
                  (case hash_key d of Inl e \<Rightarrow> Inl e
                   | Inr k \<Rightarrow> Inr (dict_append k d availability by_date))
                else Inr by_date))
      | _ \<Rightarrow> Inr by_date)"

fun group_loop :: "((string \<times> json) list \<Rightarrow> json option) \<Rightarrow> json list \<Rightarrow> date_dict \<Rightarrow> error + date_dict" where
  "group_loop resolve [] by_date = Inr by_date"
| "group_loop resolve (x # xs) by_date =
     (case group_step resolve x by_date of
        Inl e \<Rightarrow> Inl e
      | Inr by_date' \<Rightarrow> group_loop resolve xs by_date')"

text \<open>
  \<^verbatim>\<open>sorted(availabilities_by_date.items())\<close>. The keys differ pairwise, so the order of the
  pairs is the order of the keys: strings by code point, numbers by value; a string and a
  number do not compare.
\<close>

fun is_KStr :: "dict_key \<Rightarrow> bool" where
  "is_KStr (KStr s) = True"
| "is_KStr (KNum x) = False"

fun key_rank :: "dict_key \<Rightarrow> real \<times> string" where
  "key_rank (KStr s) = (0, s)"
| "key_rank (KNum x) = (x, [])"

definition sorted_items :: "date_dict \<Rightarrow> error + date_dict" where
  "sorted_items by_date =
     (if list_all (\<lambda>g. is_KStr (fst g)) by_date \<or> list_all (\<lambda>g. \<not> is_KStr (fst g)) by_date
      then Inr (sort_key (\<lambda>g. key_rank (fst g)) by_date)
      else Inl TypeError)"

record schedule_entry =
  sched_date :: json
  availabilities :: "json list"
  availability_count :: nat

record schedule =
  schedule_data :: "schedule_entry list"
  total_availabilities :: nat
  total_dates :: nat
  date_range :: "json option \<times> json option"

text \<open>
  What the parsers return: the argument as it came (an \<^verbatim>\<open>error\<close> key is present), a
  dictionary \<^verbatim>\<open>{"error": message}\<close>, or the schedule.
\<close>

datatype parse_result = Unchanged json | ErrorMessage string | Schedule schedule

definition entry_of :: "dict_key \<times> json \<times> json list \<Rightarrow> schedule_entry" where
  "entry_of g = \<lparr> sched_date = fst (snd g), availabilities = snd (snd g),
                  availability_count = length (snd (snd g)) \<rparr>"

text \<open>The grouping proper: the loop, then the sorting into \<^verbatim>\<open>schedule_data\<close>.\<close>

definition group_by_date :: "((string \<times> json) list \<Rightarrow> json option) \<Rightarrow> json list \<Rightarrow> error + schedule_entry list" where
  "group_by_date resolve xs =
     (case group_loop resolve xs [] of
        Inl e \<Rightarrow> Inl e
      | Inr by_date \<Rightarrow>
          (case sorted_items by_date of Inl e \<Rightarrow> Inl e | Inr gs \<Rightarrow> Inr (map entry_of gs)))"

text \<open>
  \<^verbatim>\<open>for day in schedule_data['bookingDays']: if 'availabilities' in day:
  availabilities.extend(day['availabilities'])\<close>
\<close>

fun booking_days :: "json list \<Rightarrow> json list \<Rightarrow> error + json list" where
  "booking_days [] acc = Inr acc"
| "booking_days (day # days) acc =
     (case py_in ''availabilities'' day of
        Inl e \<Rightarrow> Inl e
      | Inr False \<Rightarrow> booking_days days acc
      | Inr True \<Rightarrow>
          (case py_getitem day ''availabilities'' of
             Inl e \<Rightarrow> Inl e
           | Inr v \<Rightarrow> (case py_iter v of Inl e \<Rightarrow> Inl e | Inr ys \<Rightarrow> booking_days days (acc @ ys))))"

text \<open>The value of \<^verbatim>\<open>availabilities\<close> once the shape of the payload has been looked at.\<close>

definition extract_availabilities :: "json \<Rightarrow> error + json" where
  "extract_availabilities payload =
     (case payload of
        JObj kvs \<Rightarrow>
          (case map_of kvs ''availabilities'' of
             Some v \<Rightarrow> Inr v
           | None \<Rightarrow>
               (case map_of kvs ''bookingDays'' of
                  Some days \<Rightarrow>
                    (case py_iter days of
                       Inl e \<Rightarrow> Inl e
                     | Inr ds \<Rightarrow> (case booking_days ds [] of Inl e \<Rightarrow> Inl e | Inr ys \<Rightarrow> Inr (JArr ys)))
                | None \<Rightarrow> Inr (JArr [payload])))
      | JArr xs \<Rightarrow> Inr payload
      | _ \<Rightarrow> Inr (JArr []))"

text \<open>\<^verbatim>\<open>min(by_date.keys())\<close> and \<^verbatim>\<open>max(by_date.keys())\<close>, read off the sorted entries.\<close>

definition range_of :: "schedule_entry list \<Rightarrow> json option \<times> json option" where
  "range_of es = (case es of [] \<Rightarrow> (None, None) | e # _ \<Rightarrow> (Some (sched_date e), Some (sched_date (last es))))"

text \<open>
  \<^verbatim>\<open>parse_schedule_data\<close>. The sample print-out reads \<^verbatim>\<open>availabilities[0]\<close>, which raises
  on a dictionary that is not empty.
\<close>

definition parse_schedule_data :: "(string \<Rightarrow> string option) \<Rightarrow> json \<Rightarrow> error + parse_result" where
  "parse_schedule_data mdy_to_iso payload =
     (case py_in ''error'' payload of
        Inl e \<Rightarrow> Inl e
      | Inr True \<Rightarrow> Inr (Unchanged payload)
      | Inr False \<Rightarrow>
          (case extract_availabilities payload of
             Inl e \<Rightarrow> Inl e
           | Inr avs \<Rightarrow>
               (case py_len avs of
                  Inl e \<Rightarrow> Inl e
                | Inr n \<Rightarrow>
                    (if \<not> truthy avs then Inr (ErrorMessage ''No availability data found in response'')
                     else (case avs of
                             JObj kvs \<Rightarrow> Inl KeyError
                           | _ \<Rightarrow>
                              (case py_iter avs of
                                 Inl e \<Rightarrow> Inl e
                               | Inr xs \<Rightarrow>
                                   (case group_by_date (availability_date mdy_to_iso) xs of
                                      Inl e \<Rightarrow> Inl e
                                    | Inr es \<Rightarrow>
                                        Inr (Schedule \<lparr> schedule_data = es, total_availabilities = n,
                                               total_dates = length es, date_range = range_of es \<rparr>))))))))"

subsection \<open>Date grouping: Facilitron's \<^verbatim>\<open>parse_agenda_data\<close>\<close>












subsection \<open>Venue matching: \<^verbatim>\<open>enrich_with_places.py\<close>\<close>

text \<open>\<^verbatim>\<open>math.radians\<close> and \<^verbatim>\<open>haversine_m\<close>, on real numbers.\<close>

definition radians :: "real \<Rightarrow> real" where
  "radians x = x * pi / 180"

definition haversine_m :: "real \<Rightarrow> real \<Rightarrow> real \<Rightarrow> real \<Rightarrow> real" where
  "haversine_m lat1 lon1 lat2 lon2 =
     (let R = 6371000;
          dlat = radians (lat2 - lat1);
          dlon = radians (lon2 - lon1);
          a = (sin (dlat / 2))\<^sup>2 + cos (radians lat1) * cos (radians lat2) * (sin (dlon / 2))\<^sup>2
      in 2 * R * arcsin (sqrt a))"

text \<open>
  \<^verbatim>\<open>norm_name\<close>. The first substitution deletes every match of
  \<^verbatim>\<open>\b(tennis|courts?|park|recreation|rec|center|centre)\b\<close>: scanning from the left, a stop
  word is matched where the character before is not a word character and the character
  after the word is not one either; the scan goes on behind the match.
\<close>

definition stop_words :: "string list" where
  "stop_words = [''tennis'', ''courts'', ''court'', ''park'', ''recreation'', ''rec'', ''center'', ''centre'']"

definition match_stop_word :: "string \<Rightarrow> string option" where
  "match_stop_word s =
     find (\<lambda>w. starts_with w s \<and> (case drop (length w) s of [] \<Rightarrow> True | c # _ \<Rightarrow> \<not> is_word c))
       stop_words"

text \<open>
  \<open>prev_word\<close>: the character before is a word character; \<open>skip\<close>: how many characters of
  a match are still to be dropped.
\<close>

fun remove_stop_words :: "bool \<Rightarrow> nat \<Rightarrow> string \<Rightarrow> string" where
  "remove_stop_words prev_word skip [] = []"
| "remove_stop_words prev_word (Suc k) (c # cs) = remove_stop_words True k cs"
| "remove_stop_words prev_word 0 (c # cs) =
     (case (if prev_word then None else match_stop_word (c # cs)) of
        Some w \<Rightarrow> remove_stop_words True (length w - 1) cs
      | None \<Rightarrow> c # remove_stop_words (is_word c) 0 cs)"

text \<open>\<^verbatim>\<open>re.sub(r'X+', ' ', s)\<close> for a character class \<open>X\<close>: each run becomes one blank.\<close>

fun collapse_runs :: "(char \<Rightarrow> bool) \<Rightarrow> bool \<Rightarrow> string \<Rightarrow> string" where
  "collapse_runs X in_run [] = []"
| "collapse_runs X in_run (c # cs) =
     (if X c then (if in_run then collapse_runs X True cs else CHR '' '' # collapse_runs X True cs)
      else c # collapse_runs X False cs)"

definition is_lower_alnum :: "char \<Rightarrow> bool" where
  "is_lower_alnum c = (c \<in> set lower_letters \<or> is_digit c)"

definition norm_name :: "string option \<Rightarrow> string" where
  "norm_name s =
     (let s1 = lower (case s of None \<Rightarrow> [] | Some t \<Rightarrow> t);
          s2 = remove_stop_words False 0 s1;
          s3 = collapse_runs (\<lambda>c. \<not> is_lower_alnum c) False s2
      in strip (collapse_runs is_space False s3))"

text \<open>
  A candidate of the Places search, with the four keys the field mask asks for; \<open>None\<close>
  is a key that is absent. \<open>displayName\<close> holds the \<^verbatim>\<open>text\<close> of the name, if it has one;
  \<open>location\<close> holds \<^verbatim>\<open>latitude\<close> and \<^verbatim>\<open>longitude\<close>, each if present.
\<close>

record place =
  place_id :: "string option"
  displayName :: "string option option"
  location :: "(real option \<times> real option) option"
  types :: "string list option"

text \<open>The truth value of the dictionary: it has a key.\<close>

definition place_truthy :: "place \<Rightarrow> bool" where
  "place_truthy p = (place_id p \<noteq> None \<or> displayName p \<noteq> None \<or> location p \<noteq> None \<or> types p \<noteq> None)"

text \<open>\<^verbatim>\<open>p.get("displayName", {}).get("text")\<close>\<close>

definition display_text :: "place \<Rightarrow> string option" where
  "display_text p = (case displayName p of None \<Rightarrow> None | Some t \<Rightarrow> t)"

text \<open>\<^verbatim>\<open>loc.get("latitude", 0.0)\<close> and \<^verbatim>\<open>loc.get("longitude", 0.0)\<close> for \<^verbatim>\<open>loc = p.get("location", {})\<close>\<close>

definition place_lat :: "place \<Rightarrow> real" where
  "place_lat p = (case location p of Some (Some x, _) \<Rightarrow> x | _ \<Rightarrow> 0)"

definition place_lon :: "place \<Rightarrow> real" where
  "place_lon p = (case location p of Some (_, Some y) \<Rightarrow> y | _ \<Rightarrow> 0)"

text \<open>
  \<^verbatim>\<open>t.isidentifier()\<close>: a letter or an underscore, then letters, digits, underscores and the
  middle dot U+00B7.
\<close>

definition isidentifier :: "string \<Rightarrow> bool" where
  "isidentifier t =
     (case t of [] \<Rightarrow> False
      | c # cs \<Rightarrow> (is_letter c \<or> c = CHR ''_'') \<and>
          list_all (\<lambda>d. is_letter d \<or> is_digit d \<or> d = CHR ''_'' \<or> d = CHR 0xB7) cs)"

definition default_prefer_types :: "string list" where
  "default_prefer_types = [''tennis court'', ''school'', ''event venue'', ''recreation center'',
                           ''park'', ''stadium'', ''community_center'']"

definition default_avoid_name_terms :: "string list" where
  "default_avoid_name_terms = [''academy'', ''shop'', ''store'', ''club'', ''pro shop'']"

text \<open>The parameters of \<^verbatim>\<open>choose_best_match\<close> that stay the same for all candidates.\<close>

record match_args =
  osm_name :: "string option"
  lat :: real
  lng :: real
  prefer_distance :: bool
  prefer_types :: "string list option"
  avoid_name_terms :: "string list option"

definition prefer_types_of :: "match_args \<Rightarrow> string list" where
  "prefer_types_of args = (case prefer_types args of None \<Rightarrow> default_prefer_types | Some ts \<Rightarrow> ts)"

definition avoid_name_terms_of :: "match_args \<Rightarrow> string list" where
  "avoid_name_terms_of args =
     (case avoid_name_terms args of None \<Rightarrow> default_avoid_name_terms | Some ts \<Rightarrow> ts)"

text \<open>\<^verbatim>\<open>d = haversine_m(lat, lng, loc.get("latitude", 0.0), loc.get("longitude", 0.0))\<close>\<close>

definition distance_to :: "match_args \<Rightarrow> place \<Rightarrow> real" where
  "distance_to args p = haversine_m (lat args) (lng args) (place_lat p) (place_lon p)"

text \<open>\<^verbatim>\<open>dist_score = max(0, 100 * (1 - min(d, 120.0) / 120.0))\<close>\<close>

definition dist_score :: "real \<Rightarrow> real" where
  "dist_score d = max 0 (100 * (1 - min d 120 / 120))"

text \<open>The type boost, the name boost and the name penalty.\<close>

definition boost :: "match_args \<Rightarrow> place \<Rightarrow> real" where
  "boost args p =
     (let ptypes = (case types p of None \<Rightarrow> [] | Some ts \<Rightarrow> ts);
          lower_name = lower (case display_text p of None \<Rightarrow> [] | Some t \<Rightarrow> t)
      in (if \<exists>t \<in> set (filter isidentifier (prefer_types_of args)). t \<in> set ptypes then 12 else 0)
       + (if \<exists>term \<in> set (prefer_types_of args). contains term lower_name then 8 else 0)
       - (if \<exists>term \<in> set (avoid_name_terms_of args). contains term lower_name then 10 else 0))"

text \<open>
  The score of one candidate after \<^verbatim>\<open>score += boost\<close>. \<open>token_set_ratio\<close> is
  \<^verbatim>\<open>rapidfuzz.fuzz.token_set_ratio\<close>.
\<close>

definition total_score :: "(string \<Rightarrow> string \<Rightarrow> real) \<Rightarrow> match_args \<Rightarrow> place \<Rightarrow> real" where
  "total_score token_set_ratio args p =
     (let base = norm_name (osm_name args);
          ds = dist_score (distance_to args p);
          name_score = token_set_ratio base (norm_name (display_text p));
          score = (if prefer_distance args then ds
                   else if base \<noteq> [] then 0.55 * ds + 0.45 * name_score else ds)
      in score + boost args p)"

text \<open>\<^verbatim>\<open>best = (place, score, meters)\<close> and one round of the loop over the candidates.\<close>

type_synonym best = "place option \<times> real \<times> real option"

definition best_step :: "(string \<Rightarrow> string \<Rightarrow> real) \<Rightarrow> match_args \<Rightarrow> best \<Rightarrow> place \<Rightarrow> best" where
  "best_step token_set_ratio args best p =
     (if total_score token_set_ratio args p > fst (snd best)
      then (Some p, total_score token_set_ratio args p, Some (distance_to args p))
      else best)"

text \<open>\<^verbatim>\<open>return best if best[0] else (None, 0, None)\<close>\<close>

definition choose_best_match :: "(string \<Rightarrow> string \<Rightarrow> real) \<Rightarrow> match_args \<Rightarrow> place list \<Rightarrow> best" where
  "choose_best_match token_set_ratio args candidates =
     (let best = foldl (best_step token_set_ratio args) (None, -1, None) candidates
      in (case fst best of
            Some p \<Rightarrow> if place_truthy p then best else (None, 0, None)
          | None \<Rightarrow> (None, 0, None)))"

text \<open>
  A source record with the keys the driver reads and the one it writes; other keys are
  the rest of the record. \<open>'d\<close> is what \<^verbatim>\<open>get_place_details\<close> answers.
\<close>

record 'd enrichment =
  google_place_id :: string
  details :: 'd
  distance_m :: real
  match_score :: real

record 'd venue =
  r_name :: "string option"
  r_lat :: real
  r_lon :: real
  google :: "'d enrichment option"

text \<open>The keyword arguments of \<^verbatim>\<open>enrich\<close> that the loop body reads, with their defaults.\<close>

record enrich_args =
  threshold :: real
  accept_within_m :: real
  hard_reject_over_m :: real
  e_prefer_distance :: bool
  e_prefer_types :: "string list option"
  e_avoid_name_terms :: "string list option"

definition default_enrich_args :: enrich_args where
  "default_enrich_args = \<lparr> threshold = 70, accept_within_m = 200, hard_reject_over_m = 400,
       e_prefer_distance = True, e_prefer_types = None, e_avoid_name_terms = None \<rparr>"

text \<open>
  The call of \<^verbatim>\<open>choose_best_match\<close> in the driver, with \<^verbatim>\<open>prefer_types=set(prefer_types or [])\<close>
  and \<^verbatim>\<open>avoid_name_terms=set(avoid_name_terms or [])\<close>.
\<close>

definition match_args_of :: "enrich_args \<Rightarrow> ('d, 'x) venue_scheme \<Rightarrow> match_args" where
  "match_args_of cfg r =
     \<lparr> osm_name = r_name r, lat = r_lat r, lng = r_lon r, prefer_distance = e_prefer_distance cfg,
       prefer_types = Some (case e_prefer_types cfg of None \<Rightarrow> [] | Some ts \<Rightarrow> ts),
       avoid_name_terms = Some (case e_avoid_name_terms cfg of None \<Rightarrow> [] | Some ts \<Rightarrow> ts) \<rparr>"

text \<open>\<^verbatim>\<open>round(x, 1)\<close>, as rounding to the nearest tenth.\<close>

definition round1 :: "real \<Rightarrow> real" where
  "round1 x = real_of_int (round (10 * x)) / 10"

text \<open>
  \<^verbatim>\<open>place and meters is not None and meters <= accept_within_m\<close> and
  \<^verbatim>\<open>place and meters is not None and meters > hard_reject_over_m\<close>
\<close>

definition within_accept :: "enrich_args \<Rightarrow> best \<Rightarrow> bool" where
  "within_accept cfg best =
     (case best of (Some p, score, Some meters) \<Rightarrow> meters \<le> accept_within_m cfg | _ \<Rightarrow> False)"

definition beyond_hard_reject :: "enrich_args \<Rightarrow> best \<Rightarrow> bool" where
  "beyond_hard_reject cfg best =
     (case best of (Some p, score, Some meters) \<Rightarrow> meters > hard_reject_over_m cfg | _ \<Rightarrow> False)"

text \<open>
  \<^verbatim>\<open>if place and score >= threshold: details = get_place_details(place["id"]); r["google"] = {...}\<close>
  and then \<^verbatim>\<open>out.append(r)\<close>. \<open>get_place_details\<close> is the answer of the HTTP call, \<^verbatim>\<open>None\<close>
  when the request fails; \<^verbatim>\<open>details.get\<close> raises on it.
\<close>

definition attach_above_threshold ::
  "(string \<Rightarrow> 'd option) \<Rightarrow> enrich_args \<Rightarrow> best \<Rightarrow> ('d, 'x) venue_scheme
     \<Rightarrow> error + ('d, 'x) venue_scheme" where
  "attach_above_threshold get_place_details cfg best r =
     (case best of
        (Some p, score, meters) \<Rightarrow>
          (if score \<ge> threshold cfg then
             (case place_id p of
                None \<Rightarrow> Inl KeyError
              | Some pid \<Rightarrow>
                  (case get_place_details pid of
                     None \<Rightarrow> Inl AttributeError
                   | Some ds \<Rightarrow>
                       Inr (r\<lparr> google := Some \<lparr> google_place_id = pid, details = ds,
                               distance_m = round1 (case meters of None \<Rightarrow> 0 | Some m \<Rightarrow> m),
                               match_score = round1 score \<rparr> \<rparr>)))
           else Inr r)
      | (None, score, meters) \<Rightarrow> Inr r)"

text \<open>
  One round of the loop of \<^verbatim>\<open>enrich\<close>: the record appended to \<^verbatim>\<open>out\<close>, or the exception.
  \<open>places_nearby\<close> is the answer of the search for the record.
\<close>

definition enrich_record ::
  "(string \<Rightarrow> string \<Rightarrow> real) \<Rightarrow> (('d, 'x) venue_scheme \<Rightarrow> place list) \<Rightarrow> (string \<Rightarrow> 'd option)
     \<Rightarrow> enrich_args \<Rightarrow> ('d, 'x) venue_scheme \<Rightarrow> error + ('d, 'x) venue_scheme" where
  "enrich_record token_set_ratio places_nearby get_place_details cfg r =
     (let cands = places_nearby r;
          best = choose_best_match token_set_ratio (match_args_of cfg r) cands
      in if within_accept cfg best then attach_above_threshold get_place_details cfg best r
         else if beyond_hard_reject cfg best then Inr r
         else attach_above_threshold get_place_details cfg best r)"

text \<open>\<^verbatim>\<open>enrich\<close>: the records in order; an exception ends the run.\<close>

fun enrich ::
  "(string \<Rightarrow> string \<Rightarrow> real) \<Rightarrow> (('d, 'x) venue_scheme \<Rightarrow> place list) \<Rightarrow> (string \<Rightarrow> 'd option)
     \<Rightarrow> enrich_args \<Rightarrow> ('d, 'x) venue_scheme list \<Rightarrow> error + ('d, 'x) venue_scheme list" where
  "enrich token_set_ratio places_nearby get_place_details cfg [] = Inr []"
| "enrich token_set_ratio places_nearby get_place_details cfg (r # records) =
     (case enrich_record token_set_ratio places_nearby get_place_details cfg r of
        Inl e \<Rightarrow> Inl e
      | Inr r' \<Rightarrow>
          (case enrich token_set_ratio places_nearby get_place_details cfg records of
             Inl e \<Rightarrow> Inl e
           | Inr out \<Rightarrow> Inr (r' # out)))"

subsection \<open>Example inputs\<close>

definition both_signals_anchor :: node where
  "both_signals_anchor =
     Element ''a'' [''button'', ''success'', ''error'', ''cart-button'']
       [(''data-tooltip'', ''Book Now (was Unavailable)'')]
       [Element ''span'' [] [] [Text ''8:00 am - 9:00 am'']]"

definition error_anchor :: node where
  "error_anchor =
     Element ''a'' [''button'', ''error'', ''cart-button'']
       [(''data-tooltip'', ''Unavailable'')]
       [Element ''span'' [] [] [Text ''9:00 am - 10:00 am''], Element ''span'' [] [] [Text ''Unavailable'']]"

text \<open>
  The page of the scenario: one facility row and one slot row in the body of the results
  table.
\<close>

definition listing_label_cell :: node where
  "listing_label_cell =
     Element ''td'' [''label-cell''] [(''data-title'', ''Facility Description'')]
       [Text '' Laguna Park Court 1 '']"

definition listing_details_link :: node where
  "listing_details_link =
     Element ''a'' [''button''] [(''href'', ''iteminfo.html?Module=FR&FMID=296964'')]
       [Text ''Item Details'']"

definition listing_facility_row :: node where
  "listing_facility_row =
     Element ''tr'' [] []
      [listing_label_cell, Element ''td'' [''button-cell''] [] [listing_details_link]]"

definition listing_success_anchor :: node where
  "listing_success_anchor =
     Element ''a'' [''button'', ''success'', ''cart-button'']
       [(''href'', ''addtocart.html?FMID=296964''), (''data-tooltip'', ''Book Now'')]
       [Text ''8:00 am - 9:00 am'']"

definition listing_cart_row :: node where
  "listing_cart_row =
     Element ''tr'' [] []
      [Element ''td'' [''cart-blocks''] [] [listing_success_anchor, error_anchor]]"

definition listing_tbody :: node where
  "listing_tbody =
     Element ''tbody'' [] []
      [Text [CHR 0x0A], listing_facility_row, Text [CHR 0x0A], listing_cart_row, Text [CHR 0x0A]]"

definition listing_table :: node where
  "listing_table =
     Element ''table'' [] [(''id'', ''frwebsearch_output_table'')]
      [Element ''thead'' [] [] [Element ''tr'' [] [] [Element ''th'' [] [] [Text ''Facility'']]],
       listing_tbody]"

definition listing_example :: node where
  "listing_example =
     Element ''[document]'' [] []
      [Element ''html'' [] [] [Element ''body'' [] [] [Text [CHR 0x0A], listing_table]]]"

text \<open>
  Pages that differ from it in the slot row alone. \<open>results_page\<close> puts rows into the body
  of a results table, \<open>slot_row\<close> anchors into a row. In the first page the two anchors have
  the classes \<^verbatim>\<open>success\<close> and \<^verbatim>\<open>error\<close> and no class \<^verbatim>\<open>cart-button\<close>; in the second they
  carry their tooltips in the \<^verbatim>\<open>title\<close> attribute; in the third the \<^verbatim>\<open>error\<close> anchor has,
  before its first child span, a child \<^verbatim>\<open>i\<close> with a span of its own.
\<close>

definition results_page :: "node list \<Rightarrow> node" where
  "results_page rows =
     Element ''[document]'' [] []
      [Element ''table'' [] [(''id'', ''frwebsearch_output_table'')] [Element ''tbody'' [] [] rows]]"

definition slot_row :: "node list \<Rightarrow> node" where
  "slot_row anchors = Element ''tr'' [] [] [Element ''td'' [''cart-blocks''] [] anchors]"

definition success_anchor :: node where
  "success_anchor =
     Element ''a'' [''success'', ''cart-button''] [(''data-tooltip'', ''Book Now'')]
       [Text ''8:00 am - 9:00 am'']"

definition plain_success_anchor :: node where
  "plain_success_anchor =
     Element ''a'' [''success''] [(''data-tooltip'', ''Book Now'')] [Text ''8:00 am - 9:00 am'']"

definition plain_error_anchor :: node where
  "plain_error_anchor =
     Element ''a'' [''error''] [(''data-tooltip'', ''Unavailable'')]
       [Element ''span'' [] [] [Text ''9:00 am - 10:00 am'']]"

definition title_success_anchor :: node where
  "title_success_anchor =
     Element ''a'' [''success'', ''cart-button''] [(''title'', ''Book Now'')]
       [Text ''8:00 am - 9:00 am'']"

definition title_error_anchor :: node where
  "title_error_anchor =
     Element ''a'' [''error'', ''cart-button''] [(''title'', ''Unavailable'')]
       [Element ''span'' [] [] [Text ''9:00 am - 10:00 am'']]"

definition nested_span_anchor :: node where
  "nested_span_anchor =
     Element ''a'' [''error'', ''cart-button''] [(''data-tooltip'', ''Unavailable'')]
       [Element ''i'' [] [] [Element ''span'' [] [] [Text ''Full'']],
        Element ''span'' [] [] [Text ''9:00 am - 10:00 am'']]"

text \<open>
  A page on which a \<^verbatim>\<open>success\<close> anchor and an \<^verbatim>\<open>error\<close> anchor of one slot row read the same
  time.
\<close>

definition clash_facility_row :: node where
  "clash_facility_row =
     Element ''tr'' [] []
      [Element ''td'' [''label-cell''] [(''data-title'', ''Facility Description'')]
         [Text ''Laguna Park Court 1'']]"

definition clash_cart_row :: node where
  "clash_cart_row =
     Element ''tr'' [] []
      [Element ''td'' [] []
         [Element ''a'' [''cart-button'', ''success''] [(''data-tooltip'', ''Book Now'')]
            [Text ''8:00 am - 9:00 am''],
          Element ''a'' [''cart-button'', ''error''] [(''data-tooltip'', ''Unavailable'')]
            [Element ''span'' [] [] [Text ''8:00 am - 9:00 am'']]]]"

definition clash_example :: node where
  "clash_example =
     Element ''[document]'' [] []
      [Element ''table'' [] [(''id'', ''frwebsearch_output_table'')]
        [Element ''tbody'' [] [] [clash_facility_row, clash_cart_row]]]"




definition object_A :: json where
  "object_A = JObj [(''Date'', JStr ''2025-10-13T00:00:00Z''), (''Title'', JStr ''A'')]"

definition object_B :: json where
  "object_B = JObj [(''Date'', JStr ''2025-10-14T00:00:00Z''), (''Title'', JStr ''B'')]"






definition payload_example :: json where
  "payload_example = JObj [(''availabilities'', JArr [object_A, object_B])]"

text \<open>A stand-in for the M/D/YY conversion in which every conversion fails.\<close>

definition no_mdy :: "string \<Rightarrow> string option" where
  "no_mdy s = None"

text \<open>
  Stand-ins for \<^verbatim>\<open>token_set_ratio\<close> (100 on equal names that are not empty and 0 otherwise;
  100 always), a source record on the equator, a candidate at the same point and one half
  way round the globe.
\<close>

definition exact_ratio :: "string \<Rightarrow> string \<Rightarrow> real" where
  "exact_ratio a b = (if a = b \<and> a \<noteq> [] then 100 else 0)"

definition perfect_ratio :: "string \<Rightarrow> string \<Rightarrow> real" where
  "perfect_ratio a b = 100"

definition equator_venue :: "string venue" where
  "equator_venue = \<lparr> r_name = Some ''Ray Park Tennis'', r_lat = 0, r_lon = - 90, google = None \<rparr>"

definition near_place :: place where
  "near_place = \<lparr> place_id = Some ''near'', displayName = Some (Some ''Ray Park Courts''),
                   location = Some (Some 0, Some (- 90)), types = Some [''park''] \<rparr>"

definition far_place :: place where
  "far_place = \<lparr> place_id = Some ''far'', displayName = Some (Some ''Ray Park Tennis''),
                  location = Some (Some 0, Some 90), types = Some [''park''] \<rparr>"

text \<open>
  Searches that find nothing, or only the far candidate; a details request that fails; and
  the arguments of a match by name and distance.
\<close>

definition no_places :: "string venue \<Rightarrow> place list" where
  "no_places r = []"


definition no_details :: "string \<Rightarrow> string option" where
  "no_details pid = None"

definition name_args :: match_args where
  "name_args = \<lparr> osm_name = Some ''Ray Park Tennis'', lat = 0, lng = - 90, prefer_distance = False,
                  prefer_types = None, avoid_name_terms = None \<rparr>"

section \<open>Proofs\<close>

subsection \<open>The time-slot recognizer\<close>

lemmas char_defs = is_digit_def is_space_def upper_letters_def lower_letters_def upper_latin_def
  lower_latin_def caseless_latin_def numeric_latin_def is_letter_def is_word_def
  lower_char_def lower_def

lemmas re_defs = ws_def digit_def opt_def ampm_def clock_def TIME_RE_body_def first_char_def
  last_char_def word_boundary_def TIME_RE_fullmatch_def

lemma nullable_lang: "nullable r \<longleftrightarrow> [] \<in> lang r"
  by (induction r) auto

lemma deriv_lang: "s \<in> lang (deriv c r) \<longleftrightarrow> c # s \<in> lang r"
proof (induction r arbitrary: s)
  case (Cat r1 r2)
  show ?case
  proof
    assume "s \<in> lang (deriv c (Cat r1 r2))"
    then consider (l) u v where "s = u @ v" "u \<in> lang (deriv c r1)" "v \<in> lang r2"
      | (r) "nullable r1" "s \<in> lang (deriv c r2)"
      by (auto split: if_splits)
    then show "c # s \<in> lang (Cat r1 r2)"
    proof cases
      case l
      then have "c # u \<in> lang r1" using Cat.IH(1) by simp
      with l have "(c # u) @ v \<in> lang (Cat r1 r2)" by (simp del: append_Cons) blast
      with l show ?thesis by simp
    next
      case r
      then have "[] \<in> lang r1" "c # s \<in> lang r2" using Cat.IH(2) nullable_lang by auto
      then have "[] @ (c # s) \<in> lang (Cat r1 r2)" by (simp del: append_Nil) blast
      then show ?thesis by simp
    qed
  next
    assume "c # s \<in> lang (Cat r1 r2)"
    then obtain u v where uv: "c # s = u @ v" "u \<in> lang r1" "v \<in> lang r2" by auto
    show "s \<in> lang (deriv c (Cat r1 r2))"
    proof (cases u)
      case Nil
      with uv have "nullable r1" "s \<in> lang (deriv c r2)"
        using nullable_lang Cat.IH(2) by auto
      then show ?thesis by simp
    next
      case (Cons a u')
      with uv have "a = c" "s = u' @ v" "u' \<in> lang (deriv c r1)"
        using Cat.IH(1) by auto
      with uv show ?thesis by auto
    qed
  qed
qed auto

lemma re_fullmatch_lang: "re_fullmatch r s \<longleftrightarrow> s \<in> lang r"
  by (induction s arbitrary: r) (simp_all add: nullable_lang deriv_lang)


lemma lang_CatI: "u \<in> lang r \<Longrightarrow> v \<in> lang s \<Longrightarrow> u @ v \<in> lang (Cat r s)"
  by auto

lemma digit_char_is_digit: "n < 10 \<Longrightarrow> is_digit (digit_char n)"
proof -
  assume "n < 10"
  then have "n \<in> {0, 1, 2, 3, 4, 5, 6, 7, 8, 9}" by auto
  then show ?thesis by (auto simp: digit_char_def is_digit_def)
qed

lemma lower_char_a: "lower_char c = CHR ''a'' \<longleftrightarrow> c = CHR ''a'' \<or> c = CHR ''A''"
  by (auto simp: char_defs split: if_splits)
lemma lower_char_p: "lower_char c = CHR ''p'' \<longleftrightarrow> c = CHR ''p'' \<or> c = CHR ''P''"
  by (auto simp: char_defs split: if_splits)
lemma lower_char_m: "lower_char c = CHR ''m'' \<longleftrightarrow> c = CHR ''m'' \<or> c = CHR ''M''"
  by (auto simp: char_defs split: if_splits)

lemma is_ampm_iff:
  "is_ampm t \<longleftrightarrow> (\<exists>x y. t = [x, y] \<and> (lower_char x = CHR ''a'' \<or> lower_char x = CHR ''p'') \<and> lower_char y = CHR ''m'')"
  by (cases t; cases "tl t"; cases "tl (tl t)") (auto simp: is_ampm_def lower_def)

lemma lower_char_lits:
  "lower_char CHR ''a'' = CHR ''a''" "lower_char CHR ''p'' = CHR ''p''" "lower_char CHR ''m'' = CHR ''m''"
  by (simp_all add: char_defs)

lemma lang_Sym_pair:
  "t \<in> lang (Cat (Sym A) (Sym B)) \<longleftrightarrow> (\<exists>x y. t = [x, y] \<and> in_cset A x \<and> in_cset B y)"
proof
  assume "t \<in> lang (Cat (Sym A) (Sym B))"
  then show "\<exists>x y. t = [x, y] \<and> in_cset A x \<and> in_cset B y" by auto
next
  assume "\<exists>x y. t = [x, y] \<and> in_cset A x \<and> in_cset B y"
  then obtain x y where "t = [x] @ [y]" "in_cset A x" "in_cset B y" by auto
  then show "t \<in> lang (Cat (Sym A) (Sym B))" by (simp del: append_Cons append_Nil) blast
qed

lemma lang_ampm: "t \<in> lang ampm \<longleftrightarrow> is_ampm t"
  unfolding ampm_def is_ampm_iff lang.simps(6) Un_iff lang_Sym_pair
  by (auto simp: lower_char_lits)

lemma show_hour_shape:
  assumes "1 \<le> h" "h \<le> 12"
  shows "\<exists>d x. show_hour h = d # x \<and> is_digit d \<and> x \<in> lang (opt digit)"
proof (cases "h < 10")
  case True
  then show ?thesis by (simp add: show_hour_def digit_char_is_digit opt_def)
next
  case False
  with assms have "h div 10 < 10" "h mod 10 < 10" by auto
  with False show ?thesis
    by (simp add: show_hour_def digit_char_is_digit opt_def digit_def)
qed

lemma clock_langI:
  assumes "is_digit d" "x \<in> lang (opt digit)" "is_digit a" "is_digit b"
    "\<forall>c \<in> set w. is_space c" "is_ampm t"
  shows "d # x @ '':'' @ [a, b] @ w @ t \<in> lang clock"
proof -
  have 1: "w @ t \<in> lang (Cat ws ampm)"
    using assms(5,6) by (intro lang_CatI) (simp_all add: ws_def lang_ampm)
  have 2: "[b] @ w @ t \<in> lang (Cat digit (Cat ws ampm))"
    using assms(4) by (intro lang_CatI 1) (simp add: digit_def)
  have 3: "[a] @ [b] @ w @ t \<in> lang (Cat digit (Cat digit (Cat ws ampm)))"
    using assms(3) by (intro lang_CatI 2) (simp add: digit_def)
  have 4: "'':'' @ [a] @ [b] @ w @ t \<in> lang (Cat (Sym (Lit CHR '':'')) (Cat digit (Cat digit (Cat ws ampm))))"
    by (intro lang_CatI 3) simp
  have 5: "x @ '':'' @ [a] @ [b] @ w @ t \<in> lang (Cat (opt digit) (Cat (Sym (Lit CHR '':'')) (Cat digit (Cat digit (Cat ws ampm)))))"
    by (intro lang_CatI 4 assms(2))
  have "[d] @ x @ '':'' @ [a] @ [b] @ w @ t \<in> lang clock"
    unfolding clock_def using assms(1) by (intro lang_CatI 5) (simp add: digit_def)
  then show ?thesis by simp
qed

lemma show_clock_lang:
  assumes "1 \<le> h" "h \<le> 12" "m \<le> 59" "is_ampm t"
  shows "show_hour h @ '':'' @ show_minute m @ '' '' @ t \<in> lang clock"
proof -
  obtain d x where hx: "show_hour h = d # x" "is_digit d" "x \<in> lang (opt digit)"
    using show_hour_shape[OF assms(1,2)] by blast
  from assms(3) have "m div 10 < 10" "m mod 10 < 10" by auto
  then have "is_digit (digit_char (m div 10))" "is_digit (digit_char (m mod 10))"
    by (simp_all add: digit_char_is_digit)
  moreover have "\<forall>c \<in> set '' ''. is_space c" by (simp add: is_space_def)
  ultimately have "d # x @ '':'' @ [digit_char (m div 10), digit_char (m mod 10)] @ '' '' @ t \<in> lang clock"
    using hx assms(4) by (intro clock_langI)
  then show ?thesis by (simp add: hx show_minute_def)
qed

lemma slot_text_lang:
  assumes "1 \<le> h1" "h1 \<le> 12" "m1 \<le> 59" "is_ampm s1" "1 \<le> h2" "h2 \<le> 12" "m2 \<le> 59" "is_ampm s2"
  shows "slot_text h1 m1 s1 h2 m2 s2 \<in> lang TIME_RE_body"
proof -
  let ?l = "show_hour h1 @ '':'' @ show_minute m1 @ '' '' @ s1"
  let ?r = "show_hour h2 @ '':'' @ show_minute m2 @ '' '' @ s2"
  have l: "?l \<in> lang clock" and r: "?r \<in> lang clock"
    using assms by (simp_all add: show_clock_lang del: append_Cons append_Nil)
  have sp: "'' '' \<in> lang ws" by (simp add: ws_def is_space_def)
  have a: "'' '' @ ?r \<in> lang (Cat ws clock)" by (intro lang_CatI sp r)
  have b: "''-'' @ '' '' @ ?r \<in> lang (Cat (Sym (Lit CHR ''-'')) (Cat ws clock))"
    by (intro lang_CatI a) simp
  have c: "'' '' @ ''-'' @ '' '' @ ?r \<in> lang (Cat ws (Cat (Sym (Lit CHR ''-'')) (Cat ws clock)))"
    by (intro lang_CatI sp b)
  have "?l @ '' '' @ ''-'' @ '' '' @ ?r \<in> lang TIME_RE_body"
    unfolding TIME_RE_body_def by (intro lang_CatI l c)
  then show ?thesis by (simp add: slot_text_def)
qed


lemma not_hyphen:
  "is_digit c \<Longrightarrow> c \<noteq> CHR ''-''" "is_space c \<Longrightarrow> c \<noteq> CHR ''-''"
  by (auto simp: is_digit_def is_space_def)

lemma ampm_chars:
  assumes "is_ampm [x, y]"
  shows "x \<noteq> CHR ''-''" "y \<noteq> CHR ''-''" "\<not> is_space y" "is_word y"
  using assms
  by (auto simp: is_ampm_iff lower_char_a lower_char_p lower_char_m is_space_def is_word_def
      is_letter_def upper_letters_def lower_letters_def)

lemma clock_shape:
  assumes "t \<in> lang clock"
  shows "\<exists>d p x y. t = d # p @ [x, y] \<and> is_digit d \<and> is_ampm [x, y] \<and> CHR ''-'' \<notin> set t"
proof -
  from assms obtain d o1 a b w t' where t: "t = [d] @ o1 @ '':'' @ [a] @ [b] @ w @ t'"
    and d: "is_digit d" "o1 \<in> lang (opt digit)" "is_digit a" "is_digit b" "w \<in> lang ws" "t' \<in> lang ampm"
    unfolding clock_def digit_def by (auto simp del: append_Cons append_Nil)
  from d(6) obtain x y where xy: "t' = [x, y]" "is_ampm [x, y]"
    by (auto simp: lang_ampm is_ampm_iff)
  have "CHR ''-'' \<notin> set o1" using d(2) by (auto simp: opt_def digit_def is_digit_def)
  moreover have "CHR ''-'' \<notin> set w" using d(5) not_hyphen(2) by (auto simp: ws_def)
  ultimately have "CHR ''-'' \<notin> set t"
    using t d(1,3,4) xy ampm_chars(1,2)[OF xy(2)] not_hyphen(1) by auto
  moreover have "t = d # (o1 @ '':'' @ [a] @ [b] @ w) @ [x, y]" using t xy by simp
  ultimately show ?thesis using d(1) xy(2) by blast
qed

lemma body_shape:
  assumes "s \<in> lang TIME_RE_body"
  shows "\<exists>t1 w2 w3 t2. s = t1 @ w2 @ CHR ''-'' # w3 @ t2 \<and> t1 \<in> lang clock \<and> t2 \<in> lang clock
           \<and> (\<forall>c \<in> set w2. is_space c) \<and> (\<forall>c \<in> set w3. is_space c)"
  using assms unfolding TIME_RE_body_def ws_def by auto

lemma rstrip_suffix:
  assumes "\<forall>c \<in> set w. is_space c" "is_ampm [x, y]"
  shows "has_ampm_suffix (p @ [x, y] @ w)"
proof -
  have "dropWhile is_space (rev w @ (y # x # rev p)) = dropWhile is_space (y # x # rev p)"
    by (rule dropWhile_append2) (use assms(1) in auto)
  then have "dropWhile is_space (rev w @ y # x # rev p) = y # x # rev p"
    using ampm_chars(3)[OF assms(2)] by simp
  then show ?thesis using assms(2) by (simp add: has_ampm_suffix_def)
qed

lemma fullmatch_needs:
  assumes "s \<in> lang TIME_RE_body"
  shows "CHR ''-'' \<in> set s \<and> has_ampm_suffix (left_of_hyphen s) \<and> has_ampm_suffix (right_of_hyphen s)"
proof -
  obtain t1 w2 w3 t2 where s: "s = t1 @ w2 @ CHR ''-'' # w3 @ t2"
    and t: "t1 \<in> lang clock" "t2 \<in> lang clock"
    and w: "\<forall>c \<in> set w2. is_space c" "\<forall>c \<in> set w3. is_space c"
    using body_shape[OF assms] by blast
  obtain d1 p1 x1 y1 where t1: "t1 = d1 # p1 @ [x1, y1]" "is_ampm [x1, y1]" "CHR ''-'' \<notin> set t1"
    using clock_shape[OF t(1)] by blast
  obtain d2 p2 x2 y2 where t2: "t2 = d2 # p2 @ [x2, y2]" "is_ampm [x2, y2]" "CHR ''-'' \<notin> set t2"
    using clock_shape[OF t(2)] by blast
  have nh: "\<forall>c \<in> set (t1 @ w2). c \<noteq> CHR ''-''"
    using t1(3) w(1) not_hyphen(2) by auto
  have s': "s = (t1 @ w2) @ (CHR ''-'' # (w3 @ t2))" using s by simp
  have "takeWhile (\<lambda>c. c \<noteq> CHR ''-'') ((t1 @ w2) @ (CHR ''-'' # (w3 @ t2)))
          = (t1 @ w2) @ takeWhile (\<lambda>c. c \<noteq> CHR ''-'') (CHR ''-'' # (w3 @ t2))"
    by (rule takeWhile_append2) (use nh in blast)
  then have l: "left_of_hyphen s = t1 @ w2"
    unfolding left_of_hyphen_def s' by simp
  have "dropWhile (\<lambda>c. c \<noteq> CHR ''-'') ((t1 @ w2) @ (CHR ''-'' # (w3 @ t2)))
          = dropWhile (\<lambda>c. c \<noteq> CHR ''-'') (CHR ''-'' # (w3 @ t2))"
    by (rule dropWhile_append2) (use nh in blast)
  then have r: "right_of_hyphen s = w3 @ t2"
    unfolding right_of_hyphen_def s' by simp
  have "has_ampm_suffix ((d1 # p1) @ [x1, y1] @ w2)"
    by (rule rstrip_suffix[OF w(1) t1(2)])
  then have 1: "has_ampm_suffix (left_of_hyphen s)" using l t1(1) by simp
  have "has_ampm_suffix ((w3 @ d2 # p2) @ [x2, y2] @ [])"
    by (rule rstrip_suffix[OF _ t2(2)]) simp
  then have 2: "has_ampm_suffix (right_of_hyphen s)" using r t2(1) by simp
  show ?thesis using 1 2 s by simp
qed

lemma clock_ends:
  assumes "t \<in> lang clock"
  shows "\<exists>d t'. t = d # t' \<and> is_word d" "\<exists>t' y. t = t' @ [y] \<and> is_word y"
proof -
  obtain d p x y where t: "t = d # p @ [x, y]" "is_digit d" "is_ampm [x, y]"
    using clock_shape[OF assms] by blast
  show "\<exists>d t'. t = d # t' \<and> is_word d" using t by (auto simp: is_word_def)
  have "t = (d # p @ [x]) @ [y]" using t by simp
  then show "\<exists>t' y. t = t' @ [y] \<and> is_word y" using ampm_chars(4)[OF t(3)] by blast
qed

lemma body_boundaries:
  assumes "s \<in> lang TIME_RE_body"
  shows "word_boundary None (first_char s) \<and> word_boundary (last_char s) None"
proof -
  obtain t1 w2 w3 t2 where s: "s = t1 @ w2 @ CHR ''-'' # w3 @ t2"
    and t: "t1 \<in> lang clock" "t2 \<in> lang clock"
    using body_shape[OF assms] by blast
  obtain d t1' where a: "t1 = d # t1'" "is_word d" using clock_ends(1)[OF t(1)] by blast
  obtain t2' y where b: "t2 = t2' @ [y]" "is_word y" using clock_ends(2)[OF t(2)] by blast
  show ?thesis using s a b by (simp add: first_char_def last_char_def word_boundary_def)
qed

text \<open>
  Claim C2. Every string of the form \<^verbatim>\<open>H:MM am|pm - H:MM am|pm\<close> with \<open>1 \<le> H \<le> 12\<close> and
  \<open>MM \<le> 59\<close>, am/pm in either case, is accepted by the full-match predicate of
  \<^verbatim>\<open>TIME_RE\<close>; a string without the hyphen, or without an am/pm suffix on the left or on the
  right of the hyphen, is rejected.
\<close>

theorem TIME_RE_fullmatch_grammar:
  "(1 \<le> h1 \<and> h1 \<le> 12 \<and> m1 \<le> 59 \<and> is_ampm s1 \<and> 1 \<le> h2 \<and> h2 \<le> 12 \<and> m2 \<le> 59 \<and> is_ampm s2
      \<longrightarrow> TIME_RE_fullmatch (slot_text h1 m1 s1 h2 m2 s2)) \<and>
   (CHR ''-'' \<notin> set s \<or> \<not> has_ampm_suffix (left_of_hyphen s) \<or> \<not> has_ampm_suffix (right_of_hyphen s)
      \<longrightarrow> \<not> TIME_RE_fullmatch s)"
proof (intro conjI impI)
  assume "1 \<le> h1 \<and> h1 \<le> 12 \<and> m1 \<le> 59 \<and> is_ampm s1 \<and> 1 \<le> h2 \<and> h2 \<le> 12 \<and> m2 \<le> 59 \<and> is_ampm s2"
  then have "slot_text h1 m1 s1 h2 m2 s2 \<in> lang TIME_RE_body"
    by (intro slot_text_lang) simp_all
  then show "TIME_RE_fullmatch (slot_text h1 m1 s1 h2 m2 s2)"
    using body_boundaries by (simp add: TIME_RE_fullmatch_def re_fullmatch_lang)
next
  assume a: "CHR ''-'' \<notin> set s \<or> \<not> has_ampm_suffix (left_of_hyphen s) \<or> \<not> has_ampm_suffix (right_of_hyphen s)"
  show "\<not> TIME_RE_fullmatch s"
  proof
    assume "TIME_RE_fullmatch s"
    then have "s \<in> lang TIME_RE_body" by (simp add: TIME_RE_fullmatch_def re_fullmatch_lang)
    from fullmatch_needs[OF this] a show False by blast
  qed
qed

theorem TIME_RE_fullmatch_grammar_witness:
  "(1::nat) \<le> 8 \<and> (8::nat) \<le> 12 \<and> (0::nat) \<le> 59 \<and> is_ampm ''am'' \<and> (1::nat) \<le> 12 \<and> (12::nat) \<le> 12
     \<and> (30::nat) \<le> 59 \<and> is_ampm ''PM''
     \<and> slot_text 8 0 ''am'' 12 30 ''PM'' = ''8:00 am - 12:30 PM''
     \<and> TIME_RE_fullmatch ''8:00 am - 12:30 PM''
     \<and> CHR ''-'' \<notin> set ''8:00 am 9:00 am'' \<and> \<not> TIME_RE_fullmatch ''8:00 am 9:00 am''
     \<and> \<not> has_ampm_suffix (left_of_hyphen ''8:00 - 9:00 am'') \<and> \<not> TIME_RE_fullmatch ''8:00 - 9:00 am''
     \<and> \<not> has_ampm_suffix (right_of_hyphen ''8:00 am - 9:00'') \<and> \<not> TIME_RE_fullmatch ''8:00 am - 9:00''
     \<and> has_ampm_suffix (left_of_hyphen (''8:00 am'' @ [CHR 0xA0] @ ''- 9:00 am''))
     \<and> TIME_RE_fullmatch (''8:00 am'' @ [CHR 0xA0] @ ''- 9:00 am'')"
proof -
  have f: "slot_text 8 0 ''am'' 12 30 ''PM'' = ''8:00 am - 12:30 PM''"
    by (simp add: slot_text_def show_hour_def show_minute_def digit_char_def)
  have a: "is_ampm ''am''" "is_ampm ''PM''" by (simp_all add: is_ampm_def char_defs)
  have l: "\<not> has_ampm_suffix (left_of_hyphen ''8:00 - 9:00 am'')"
    by (simp add: has_ampm_suffix_def left_of_hyphen_def is_ampm_def char_defs)
  have r: "\<not> has_ampm_suffix (right_of_hyphen ''8:00 am - 9:00'')"
    by (simp add: has_ampm_suffix_def right_of_hyphen_def is_ampm_def char_defs)
  have n: "has_ampm_suffix (left_of_hyphen (''8:00 am'' @ [CHR 0xA0] @ ''- 9:00 am''))"
    "TIME_RE_fullmatch (''8:00 am'' @ [CHR 0xA0] @ ''- 9:00 am'')"
    by code_simp+
  show ?thesis
    using TIME_RE_fullmatch_grammar[of 8 0 "''am''" 12 30 "''PM''" "''8:00 am 9:00 am''"]
      TIME_RE_fullmatch_grammar[of 8 0 "''am''" 12 30 "''PM''" "''8:00 - 9:00 am''"]
      TIME_RE_fullmatch_grammar[of 8 0 "''am''" 12 30 "''PM''" "''8:00 am - 9:00''"]
      f a l r n
    by simp
qed

subsection \<open>The slot loop and the document tree\<close>

lemma slot_step_cases:
  "slot_step a acc = acc \<or>
   (available_test a \<and> TIME_RE_fullmatch (get_text_strip a) \<and>
      slot_step a acc = (fst acc @ [get_text_strip a], snd acc)) \<or>
   (\<not> available_test a \<and> unavailable_test a \<and>
      (\<exists>sp rest. find_all (is_tag ''span'') a = sp # rest \<and> TIME_RE_fullmatch (get_text_strip sp) \<and>
         slot_step a acc = (fst acc, snd acc @ [get_text_strip sp])))"
  by (auto simp: slot_step_def Let_def split: list.splits)

lemma slot_step_append:
  "slot_step a acc = (fst acc @ fst (slot_step a ([], [])), snd acc @ snd (slot_step a ([], [])))"
  by (cases acc) (auto simp: slot_step_def Let_def split: list.splits)

lemma foldl_slot_step:
  "foldl (\<lambda>acc a. slot_step a acc) acc anchors =
     (fst acc @ concat (map (\<lambda>a. fst (slot_step a ([], []))) anchors),
      snd acc @ concat (map (\<lambda>a. snd (slot_step a ([], []))) anchors))"
proof (induction anchors arbitrary: acc)
  case Nil
  then show ?case by simp
next
  case (Cons a anchors)
  have "fst (slot_step a acc) = fst acc @ fst (slot_step a ([], []))"
    "snd (slot_step a acc) = snd acc @ snd (slot_step a ([], []))"
    using slot_step_append[of a acc] by (cases "slot_step a acc"; simp)+
  then show ?case by (simp add: Cons.IH)
qed

lemma slot_loop_concat:
  "slot_loop anchors =
     (concat (map (\<lambda>a. fst (slot_step a ([], []))) anchors),
      concat (map (\<lambda>a. snd (slot_step a ([], []))) anchors))"
  by (simp add: slot_loop_def foldl_slot_step)

lemma fst_slot_step_iff: "s \<in> set (fst (slot_step a ([], []))) \<longleftrightarrow> reads_available a s"
  by (auto simp: slot_step_def reads_available_def Let_def split: list.splits)

lemma snd_slot_step_iff: "s \<in> set (snd (slot_step a ([], []))) \<longleftrightarrow> reads_unavailable a s"
  by (auto simp: slot_step_def reads_unavailable_def Let_def split: list.splits)

lemma slot_loop_both:
  "s \<in> set (fst (slot_loop anchors)) \<inter> set (snd (slot_loop anchors)) \<longleftrightarrow> clash anchors s"
proof -
  have "s \<in> set (fst (slot_loop anchors)) \<longleftrightarrow> (\<exists>a \<in> set anchors. reads_available a s)"
    by (simp add: slot_loop_concat fst_slot_step_iff)
  moreover have "s \<in> set (snd (slot_loop anchors)) \<longleftrightarrow> (\<exists>b \<in> set anchors. reads_unavailable b s)"
    by (simp add: slot_loop_concat snd_slot_step_iff)
  ultimately show ?thesis unfolding clash_def by blast
qed

lemma table_rows_blocks:
  "table_rows rows = map (\<lambda>b. table_facility (fst b) (snd b)) (row_blocks rows)"
  by (induction rows rule: table_rows.induct) simp_all

lemma starts_with_append: "starts_with p (p @ s)"
  by (induction p) auto

lemma contains_middle: "contains n (a @ n @ b)"
proof (induction a)
  case Nil
  show ?case by (cases "n @ b") (use starts_with_append[of n b] in \<open>auto split: list.splits\<close>)
next
  case (Cons x a)
  then show ?case by simp
qed

lemma join_member: "s \<in> set ts \<Longrightarrow> \<exists>a b. join sep ts = a @ s @ b"
proof (induction sep ts rule: join.induct)
  case (1 sep)
  then show ?case by simp
next
  case (2 sep x)
  then have "join sep [x] = [] @ s @ []" by simp
  then show ?case by blast
next
  case (3 sep x y ys)
  show ?case
  proof (cases "s = x")
    case True
    then have "join sep (x # y # ys) = [] @ s @ (sep @ join sep (y # ys))" by simp
    then show ?thesis by blast
  next
    case False
    with 3 obtain a b where "join sep (y # ys) = a @ s @ b" by auto
    then have "join sep (x # y # ys) = (x @ sep @ a) @ s @ b" by simp
    then show ?thesis by blast
  qed
qed

lemma class_token_in_joined:
  assumes "s \<in> set (get_classes a)"
  shows "contains (lower s) (joined_classes a)"
proof -
  obtain u v where "join '' '' (get_classes a) = u @ s @ v"
    using join_member[OF assms] by blast
  then have "joined_classes a = lower u @ lower s @ lower v"
    by (simp add: joined_classes_def lower_def)
  then show ?thesis by (simp add: contains_middle)
qed

text \<open>
  Claim C9. In the slot loop that both normalizers run, one anchor adds at most one slot
  text, to at most one of the two lists. The available test comes first: an anchor with a
  class token \<^verbatim>\<open>success\<close> and a tooltip containing \<^verbatim>\<open>book now\<close> is handled by the available
  branch alone, whatever else its class and tooltip say; the unavailable list grows only
  when the available test has failed. The lists of a record are what the anchors of its
  slot row (or of its card) add one by one, in document order.
\<close>

theorem slot_step_classification:
  "(slot_step a (av, un) = (av, un) \<or> (\<exists>t. slot_step a (av, un) = (av @ [t], un))
      \<or> (\<exists>t. slot_step a (av, un) = (av, un @ [t]))) \<and>
   (s \<in> set (get_classes a) \<and> lower s = ''success'' \<and> contains ''book now'' (tooltip_of a) \<longrightarrow>
      slot_step a (av, un) =
        (if TIME_RE_fullmatch (get_text_strip a) then (av @ [get_text_strip a], un) else (av, un))) \<and>
   (snd (slot_step a (av, un)) \<noteq> un \<longrightarrow> \<not> available_test a \<and> unavailable_test a) \<and>
   slot_loop anchors =
     (concat (map (\<lambda>a. fst (slot_step a ([], []))) anchors),
      concat (map (\<lambda>a. snd (slot_step a ([], []))) anchors)) \<and>
   length (fst (slot_loop anchors)) + length (snd (slot_loop anchors)) \<le> length anchors \<and>
   available_slots (table_facility row (Some cart_row)) = fst (slot_loop (select_cart_buttons cart_row)) \<and>
   unavailable_slots (table_facility row (Some cart_row)) = snd (slot_loop (select_cart_buttons cart_row)) \<and>
   available_slots (card_facility (anc, card_el)) = fst (slot_loop (select_cart_buttons card_el)) \<and>
   unavailable_slots (card_facility (anc, card_el)) = snd (slot_loop (select_cart_buttons card_el))"
proof (intro conjI impI)
  show "slot_step a (av, un) = (av, un) \<or> (\<exists>t. slot_step a (av, un) = (av @ [t], un))
      \<or> (\<exists>t. slot_step a (av, un) = (av, un @ [t]))"
    using slot_step_cases[of a "(av, un)"] by auto
next
  assume h: "s \<in> set (get_classes a) \<and> lower s = ''success'' \<and> contains ''book now'' (tooltip_of a)"
  then have "contains ''success'' (joined_classes a)"
    using class_token_in_joined[of s a] by simp
  with h have "available_test a" by (simp add: available_test_def)
  then show "slot_step a (av, un) =
        (if TIME_RE_fullmatch (get_text_strip a) then (av @ [get_text_strip a], un) else (av, un))"
    by (simp add: slot_step_def Let_def)
next
  assume "snd (slot_step a (av, un)) \<noteq> un"
  then show "\<not> available_test a" "unavailable_test a"
    using slot_step_cases[of a "(av, un)"] by auto
next
  show "slot_loop anchors =
     (concat (map (\<lambda>a. fst (slot_step a ([], []))) anchors),
      concat (map (\<lambda>a. snd (slot_step a ([], []))) anchors))"
    by (rule slot_loop_concat)
next
  have "length (concat (map (\<lambda>a. fst (slot_step a ([], []))) anchors))
          + length (concat (map (\<lambda>a. snd (slot_step a ([], []))) anchors)) \<le> length anchors"
  proof (induction anchors)
    case Nil
    then show ?case by simp
  next
    case (Cons a anchors)
    have "length (fst (slot_step a ([], []))) + length (snd (slot_step a ([], []))) \<le> 1"
      using slot_step_cases[of a "([], [])"] by auto
    with Cons show ?case by simp
  qed
  then show "length (fst (slot_loop anchors)) + length (snd (slot_loop anchors)) \<le> length anchors"
    by (simp add: slot_loop_concat)
qed (simp_all add: table_facility_def card_facility_def Let_def)

theorem slot_step_classification_witness:
  "''success'' \<in> set (get_classes both_signals_anchor) \<and> lower ''success'' = ''success''
     \<and> contains ''book now'' (tooltip_of both_signals_anchor)
     \<and> unavailable_test both_signals_anchor
     \<and> slot_step both_signals_anchor ([], []) = ([''8:00 am - 9:00 am''], [])
     \<and> snd (slot_step error_anchor ([], [])) \<noteq> []
     \<and> \<not> available_test error_anchor \<and> unavailable_test error_anchor
     \<and> slot_step error_anchor ([], []) = ([], [''9:00 am - 10:00 am''])
     \<and> slot_loop [both_signals_anchor, error_anchor] = ([''8:00 am - 9:00 am''], [''9:00 am - 10:00 am''])"
proof -
  have h: "''success'' \<in> set (get_classes both_signals_anchor)" "lower ''success'' = ''success''"
    "contains ''book now'' (tooltip_of both_signals_anchor)"
    "unavailable_test both_signals_anchor"
    by code_simp+
  have t: "TIME_RE_fullmatch (get_text_strip both_signals_anchor)"
    "get_text_strip both_signals_anchor = ''8:00 am - 9:00 am''"
    by code_simp+
  have e: "snd (slot_step error_anchor ([], [])) \<noteq> []"
    "slot_step error_anchor ([], []) = ([], [''9:00 am - 10:00 am''])"
    by code_simp+
  have b: "slot_step both_signals_anchor ([], []) = ([''8:00 am - 9:00 am''], [])"
    using slot_step_classification[of both_signals_anchor "[]" "[]" "''success''"] h t by simp
  have l: "slot_loop [both_signals_anchor, error_anchor] = ([''8:00 am - 9:00 am''], [''9:00 am - 10:00 am''])"
    using slot_step_classification[of both_signals_anchor "[]" "[]" "''success''" "[both_signals_anchor, error_anchor]"]
      b e(2)
    by simp
  show ?thesis
    using slot_step_classification[of error_anchor "[]" "[]"] h t e b l
    by simp
qed

text \<open>
  Claim C1, as stated, fails: the normalizer looks for the slot anchors with the selector
  \<^verbatim>\<open>a.cart-button\<close>, reads the tooltip from the attribute \<^verbatim>\<open>data-tooltip\<close>, and takes the first
  span below an \<^verbatim>\<open>error\<close> anchor in document order, child or not. On a page whose two anchors
  have no class \<^verbatim>\<open>cart-button\<close>, and on one whose anchors carry the tooltip as \<^verbatim>\<open>title\<close>, both
  lists are empty; on a page whose \<^verbatim>\<open>error\<close> anchor has a nested span before its first child
  span, the unavailable list is empty.
\<close>

theorem scenario_wording_admits_other_outputs:
  "parse_listing_table_schedules
       (results_page [listing_facility_row, slot_row [plain_success_anchor, plain_error_anchor]]) =
     [\<lparr> fmid = Some ''296964'', label = Some ''Laguna Park Court 1'', location = None,
        available_slots = [], unavailable_slots = [] \<rparr>] \<and>
   parse_listing_table_schedules
       (results_page [listing_facility_row, slot_row [title_success_anchor, title_error_anchor]]) =
     [\<lparr> fmid = Some ''296964'', label = Some ''Laguna Park Court 1'', location = None,
        available_slots = [], unavailable_slots = [] \<rparr>] \<and>
   find_children (is_tag ''span'') nested_span_anchor = [Element ''span'' [] [] [Text ''9:00 am - 10:00 am'']] \<and>
   parse_listing_table_schedules
       (results_page [listing_facility_row, slot_row [success_anchor, nested_span_anchor]]) =
     [\<lparr> fmid = Some ''296964'', label = Some ''Laguna Park Court 1'', location = None,
        available_slots = [''8:00 am - 9:00 am''], unavailable_slots = [] \<rparr>]"
  by (intro conjI; code_simp)

text \<open>
  Claim C1, amended. Let the results table be found and have a body with exactly two rows.
  Let the first row have one label cell, titled "Facility Description" and reading "Laguna
  Park Court 1", and a details link in whose \<^verbatim>\<open>href\<close> the pattern \<^verbatim>\<open>[?&]FMID=(\d+)\<close> finds
  296964. Let the selector \<^verbatim>\<open>a.cart-button\<close> find two anchors in the second row, in either
  order: one with a class token \<^verbatim>\<open>success\<close>, the \<^verbatim>\<open>data-tooltip\<close> "Book Now" and the text
  "8:00 am - 9:00 am"; one with a class token \<^verbatim>\<open>error\<close> and the \<^verbatim>\<open>data-tooltip\<close> "Unavailable",
  whose first span in document order reads "9:00 am - 10:00 am". Then the table-layout
  normalizer returns exactly one record, with that fmid and label, no location, and the two
  slots in their lists.
\<close>

theorem table_listing_scenario:
  assumes table: "find_first is_results_table soup = Some table"
    and tbody: "find_first (is_tag ''tbody'') table = Some tbody"
    and rows: "find_children (is_tag ''tr'') tbody = [row, cart_row]"
    and cells: "label_cells row = [cell]"
    and title: "get_attr cell ''data-title'' = Some ''Facility Description''"
    and name: "get_text_strip cell = ''Laguna Park Court 1''"
    and link: "details_link row = Some link"
    and href: "get_attr link ''href'' = Some href"
    and fm: "search_fmid href = Some ''296964''"
    and anchors: "select_cart_buttons cart_row = [a1, a2] \<or> select_cart_buttons cart_row = [a2, a1]"
    and a1: "has_class ''success'' a1" "get_attr a1 ''data-tooltip'' = Some ''Book Now''"
      "get_text_strip a1 = ''8:00 am - 9:00 am''"
    and a2: "has_class ''error'' a2" "get_attr a2 ''data-tooltip'' = Some ''Unavailable''"
      "find_all (is_tag ''span'') a2 = sp # spans" "get_text_strip sp = ''9:00 am - 10:00 am''"
  shows "parse_listing_table_schedules soup =
     [\<lparr> fmid = Some ''296964'', label = Some ''Laguna Park Court 1'', location = None,
        available_slots = [''8:00 am - 9:00 am''], unavailable_slots = [''9:00 am - 10:00 am''] \<rparr>]"
proof -
  have l: "foldl (\<lambda>acc td. label_step td acc) (None, None) (label_cells row)
             = (Some ''Laguna Park Court 1'', None)"
    by (simp add: cells label_step_def Let_def get_attr_or_def title name falsy_def)
  have f: "fmid_of_link (details_link row) = Some ''296964''"
    by (simp add: fmid_of_link_def link href fm)
  have t: "TIME_RE_fullmatch ''8:00 am - 9:00 am''" "TIME_RE_fullmatch ''9:00 am - 10:00 am''"
    by code_simp+
  have w: "lower ''success'' = ''success''" "lower ''error'' = ''error''"
    "lower ''Book Now'' = ''book now''" "lower ''Unavailable'' = ''unavailable''"
    "contains ''book now'' ''book now''" "contains ''unavailable'' ''unavailable''"
    "\<not> contains ''book now'' ''unavailable''"
    by code_simp+
  have "contains (lower ''success'') (joined_classes a1)"
    using a1(1) unfolding has_class_def by (rule class_token_in_joined)
  then have c1: "contains ''success'' (joined_classes a1)" by (simp only: w(1))
  have "contains (lower ''error'') (joined_classes a2)"
    using a2(1) unfolding has_class_def by (rule class_token_in_joined)
  then have c2: "contains ''error'' (joined_classes a2)" by (simp only: w(2))
  have p1: "tooltip_of a1 = ''book now''"
    by (simp only: tooltip_of_def get_attr_or_def a1(2) option.case w(3))
  have p2: "tooltip_of a2 = ''unavailable''"
    by (simp only: tooltip_of_def get_attr_or_def a2(2) option.case w(4))
  have v1: "available_test a1" by (simp only: available_test_def c1 p1 w(5) simp_thms)
  have v2: "\<not> available_test a2" by (simp only: available_test_def p2 w(7) simp_thms)
  have u2: "unavailable_test a2" by (simp only: unavailable_test_def c2 p2 w(6) simp_thms)
  have s1: "slot_step a1 acc = (fst acc @ [''8:00 am - 9:00 am''], snd acc)" for acc
    by (simp only: slot_step_def v1 if_True Let_def a1(3) t(1))
  have s2: "slot_step a2 acc = (fst acc, snd acc @ [''9:00 am - 10:00 am''])" for acc
    by (simp only: slot_step_def v2 u2 if_True if_False Let_def a2(3,4) t(2) list.case)
  have "slot_loop [a1, a2] = ([''8:00 am - 9:00 am''], [''9:00 am - 10:00 am''])"
    "slot_loop [a2, a1] = ([''8:00 am - 9:00 am''], [''9:00 am - 10:00 am''])"
    by (simp_all add: slot_loop_def s1 s2)
  with anchors have s: "slot_loop (select_cart_buttons cart_row)
                          = ([''8:00 am - 9:00 am''], [''9:00 am - 10:00 am''])"
    by auto
  have r: "table_rows [row, cart_row] = [table_facility row (Some cart_row)]"
    by (simp add: cells)
  have "table_facility row (Some cart_row) =
     \<lparr> fmid = Some ''296964'', label = Some ''Laguna Park Court 1'', location = None,
        available_slots = [''8:00 am - 9:00 am''], unavailable_slots = [''9:00 am - 10:00 am''] \<rparr>"
    by (simp add: table_facility_def Let_def l f s)
  then show ?thesis
    by (simp only: parse_listing_table_schedules_def table tbody rows r option.case)
qed

theorem table_listing_scenario_witness:
  "find_first is_results_table listing_example = Some listing_table
     \<and> find_first (is_tag ''tbody'') listing_table = Some listing_tbody
     \<and> find_children (is_tag ''tr'') listing_tbody = [listing_facility_row, listing_cart_row]
     \<and> label_cells listing_facility_row = [listing_label_cell]
     \<and> get_attr listing_label_cell ''data-title'' = Some ''Facility Description''
     \<and> get_text_strip listing_label_cell = ''Laguna Park Court 1''
     \<and> details_link listing_facility_row = Some listing_details_link
     \<and> get_attr listing_details_link ''href'' = Some ''iteminfo.html?Module=FR&FMID=296964''
     \<and> search_fmid ''iteminfo.html?Module=FR&FMID=296964'' = Some ''296964''
     \<and> select_cart_buttons listing_cart_row = [listing_success_anchor, error_anchor]
     \<and> has_class ''success'' listing_success_anchor
     \<and> get_attr listing_success_anchor ''data-tooltip'' = Some ''Book Now''
     \<and> get_text_strip listing_success_anchor = ''8:00 am - 9:00 am''
     \<and> has_class ''error'' error_anchor
     \<and> get_attr error_anchor ''data-tooltip'' = Some ''Unavailable''
     \<and> find_all (is_tag ''span'') error_anchor =
          [Element ''span'' [] [] [Text ''9:00 am - 10:00 am''], Element ''span'' [] [] [Text ''Unavailable'']]
     \<and> get_text_strip (Element ''span'' [] [] [Text ''9:00 am - 10:00 am'']) = ''9:00 am - 10:00 am''
     \<and> parse_listing_table_schedules listing_example =
          [\<lparr> fmid = Some ''296964'', label = Some ''Laguna Park Court 1'', location = None,
             available_slots = [''8:00 am - 9:00 am''], unavailable_slots = [''9:00 am - 10:00 am''] \<rparr>]"
proof -
  have 1: "find_first is_results_table listing_example = Some listing_table" by code_simp
  have 2: "find_first (is_tag ''tbody'') listing_table = Some listing_tbody" by code_simp
  have 3: "find_children (is_tag ''tr'') listing_tbody = [listing_facility_row, listing_cart_row]"
    by code_simp
  have 4: "label_cells listing_facility_row = [listing_label_cell]" by code_simp
  have 5: "get_attr listing_label_cell ''data-title'' = Some ''Facility Description''" by code_simp
  have 6: "get_text_strip listing_label_cell = ''Laguna Park Court 1''" by code_simp
  have 7: "details_link listing_facility_row = Some listing_details_link" by code_simp
  have 8: "get_attr listing_details_link ''href'' = Some ''iteminfo.html?Module=FR&FMID=296964''"
    by code_simp
  have 9: "search_fmid ''iteminfo.html?Module=FR&FMID=296964'' = Some ''296964''" by code_simp
  have 10: "select_cart_buttons listing_cart_row = [listing_success_anchor, error_anchor]" by code_simp
  have 11: "has_class ''success'' listing_success_anchor"
    "get_attr listing_success_anchor ''data-tooltip'' = Some ''Book Now''"
    "get_text_strip listing_success_anchor = ''8:00 am - 9:00 am''"
    by code_simp+
  have 12: "has_class ''error'' error_anchor"
    "get_attr error_anchor ''data-tooltip'' = Some ''Unavailable''"
    "find_all (is_tag ''span'') error_anchor =
       Element ''span'' [] [] [Text ''9:00 am - 10:00 am''] # [Element ''span'' [] [] [Text ''Unavailable'']]"
    "get_text_strip (Element ''span'' [] [] [Text ''9:00 am - 10:00 am'']) = ''9:00 am - 10:00 am''"
    by code_simp+
  have 13: "select_cart_buttons listing_cart_row = [listing_success_anchor, error_anchor]
              \<or> select_cart_buttons listing_cart_row = [error_anchor, listing_success_anchor]"
    using 10 by simp
  note r = table_listing_scenario[OF 1 2 3 4 5 6 7 8 9 13 11 12]
  show ?thesis using 1 2 3 4 5 6 7 8 9 10 11 12 r by simp
qed

text \<open>
  Claim C3, as stated, fails: nothing in either normalizer compares the two lists. When a
  \<^verbatim>\<open>success\<close> anchor and an \<^verbatim>\<open>error\<close> anchor of one slot row carry the same time text, the
  record has that text in both lists.
\<close>

theorem same_text_in_both_lists:
  "parse_listing_table_schedules clash_example =
     [\<lparr> fmid = None, label = Some ''Laguna Park Court 1'', location = None,
        available_slots = [''8:00 am - 9:00 am''], unavailable_slots = [''8:00 am - 9:00 am''] \<rparr>]"
  by code_simp

text \<open>
  Claim C3, amended. A slot text is in both lists of a record exactly when, among the slot
  anchors of that record's own slot row (table layout) or card (card layout), one anchor
  classified available and one anchor classified unavailable read that text. A facility
  row with no row after it has two empty lists. The records of the table-layout normalizer
  are those of the facility rows with the rows after them, the records of the card-layout
  normalizer those of the cards.
\<close>

theorem slot_in_both_lists_iff_clash:
  "(s \<in> set (available_slots (table_facility row (Some cart_row)))
          \<inter> set (unavailable_slots (table_facility row (Some cart_row)))
      \<longleftrightarrow> clash (select_cart_buttons cart_row) s) \<and>
   available_slots (table_facility row None) = [] \<and>
   unavailable_slots (table_facility row None) = [] \<and>
   (s \<in> set (available_slots (card_facility (anc, card_el)))
          \<inter> set (unavailable_slots (card_facility (anc, card_el)))
      \<longleftrightarrow> clash (select_cart_buttons card_el) s) \<and>
   parse_listing_table_schedules soup =
     map (\<lambda>b. table_facility (fst b) (snd b)) (row_blocks (listing_rows soup)) \<and>
   parse_listing_group_schedules soup = map card_facility (result_cards soup)"
proof (intro conjI)
  have "available_slots (table_facility row (Some cart_row)) = fst (slot_loop (select_cart_buttons cart_row))"
    "unavailable_slots (table_facility row (Some cart_row)) = snd (slot_loop (select_cart_buttons cart_row))"
    by (simp_all add: table_facility_def Let_def)
  then show "s \<in> set (available_slots (table_facility row (Some cart_row)))
          \<inter> set (unavailable_slots (table_facility row (Some cart_row)))
      \<longleftrightarrow> clash (select_cart_buttons cart_row) s"
    by (simp only: slot_loop_both)
next
  show "available_slots (table_facility row None) = []"
    "unavailable_slots (table_facility row None) = []"
    by (simp_all add: table_facility_def Let_def)
next
  have "available_slots (card_facility (anc, card_el)) = fst (slot_loop (select_cart_buttons card_el))"
    "unavailable_slots (card_facility (anc, card_el)) = snd (slot_loop (select_cart_buttons card_el))"
    by (simp_all add: card_facility_def Let_def)
  then show "s \<in> set (available_slots (card_facility (anc, card_el)))
          \<inter> set (unavailable_slots (card_facility (anc, card_el)))
      \<longleftrightarrow> clash (select_cart_buttons card_el) s"
    by (simp only: slot_loop_both)
next
  show "parse_listing_table_schedules soup =
     map (\<lambda>b. table_facility (fst b) (snd b)) (row_blocks (listing_rows soup))"
    by (simp add: parse_listing_table_schedules_def listing_rows_def table_rows_blocks
        split: option.splits)
next
  show "parse_listing_group_schedules soup = map card_facility (result_cards soup)"
    by (simp add: parse_listing_group_schedules_def result_cards_def split: list.splits)
qed

theorem slot_in_both_lists_iff_clash_witness:
  "clash (select_cart_buttons clash_cart_row) ''8:00 am - 9:00 am''
     \<and> ''8:00 am - 9:00 am''
         \<in> set (available_slots (table_facility clash_facility_row (Some clash_cart_row)))
             \<inter> set (unavailable_slots (table_facility clash_facility_row (Some clash_cart_row)))
     \<and> \<not> clash (select_cart_buttons listing_cart_row) ''8:00 am - 9:00 am''
     \<and> ''8:00 am - 9:00 am''
         \<notin> set (available_slots (table_facility listing_facility_row (Some listing_cart_row)))
             \<inter> set (unavailable_slots (table_facility listing_facility_row (Some listing_cart_row)))
     \<and> row_blocks (listing_rows clash_example) = [(clash_facility_row, Some clash_cart_row)]
     \<and> parse_listing_table_schedules clash_example
         = [table_facility clash_facility_row (Some clash_cart_row)]"
proof -
  have a: "clash (select_cart_buttons clash_cart_row) ''8:00 am - 9:00 am''" by code_simp
  have b: "\<not> clash (select_cart_buttons listing_cart_row) ''8:00 am - 9:00 am''" by code_simp
  have c: "row_blocks (listing_rows clash_example) = [(clash_facility_row, Some clash_cart_row)]"
    by code_simp
  show ?thesis
    using slot_in_both_lists_iff_clash[of "''8:00 am - 9:00 am''" clash_facility_row clash_cart_row _ _ clash_example]
      slot_in_both_lists_iff_clash[of "''8:00 am - 9:00 am''" listing_facility_row listing_cart_row]
      a b c
    by simp
qed



subsection \<open>Date grouping\<close>



























lemma find_Some_takeWhile:
  "find Q ys = Some x \<longleftrightarrow> x \<in> set ys \<and> Q x \<and> (\<forall>y \<in> set (takeWhile (\<lambda>y. y \<noteq> x) ys). \<not> Q y)"
proof (induction ys)
  case Nil
  show ?case by simp
next
  case (Cons a ys)
  show ?case
  proof (cases "Q a")
    case True
    then show ?thesis by (cases "a = x") simp_all
  next
    case False
    then show ?thesis using Cons.IH by (cases "a = x") simp_all
  qed
qed

text \<open>
  Claim C5. The date of an availability object comes from the first field present among
  \<^verbatim>\<open>Date\<close>, \<^verbatim>\<open>StartDate\<close>, \<^verbatim>\<open>date\<close>, \<^verbatim>\<open>startDate\<close>, \<^verbatim>\<open>StartTime\<close>, and a string value with a
  \<^verbatim>\<open>T\<close> in it is cut before the first \<^verbatim>\<open>T\<close>. On the payload of the scenario the result has two
  groups, 2025-10-13 and 2025-10-14 in this order, one object and count 1 each, and the
  date range runs from 2025-10-13 to 2025-10-14.
\<close>

theorem date_resolution_and_grouping:
  "(first_date_field kvs = Some f \<longleftrightarrow>
      f \<in> set date_fields \<and> f \<in> set (map fst kvs) \<and>
      (\<forall>g \<in> set (takeWhile (\<lambda>g. g \<noteq> f) date_fields). g \<notin> set (map fst kvs))) \<and>
   (first_date_field kvs = Some f \<and> map_of kvs f = Some (JStr s) \<and> CHR ''T'' \<in> set s \<longrightarrow>
      availability_date mdy_to_iso kvs = Some (JStr (takeWhile (\<lambda>c. c \<noteq> CHR ''T'') s))) \<and>
   parse_schedule_data mdy_to_iso payload_example =
     Inr (Schedule \<lparr> schedule_data =
            [\<lparr> sched_date = JStr ''2025-10-13'', availabilities = [object_A], availability_count = 1 \<rparr>,
             \<lparr> sched_date = JStr ''2025-10-14'', availabilities = [object_B], availability_count = 1 \<rparr>],
          total_availabilities = 2, total_dates = 2,
          date_range = (Some (JStr ''2025-10-13''), Some (JStr ''2025-10-14'')) \<rparr>)"
proof (intro conjI impI)
  show "first_date_field kvs = Some f \<longleftrightarrow>
      f \<in> set date_fields \<and> f \<in> set (map fst kvs) \<and>
      (\<forall>g \<in> set (takeWhile (\<lambda>g. g \<noteq> f) date_fields). g \<notin> set (map fst kvs))"
    unfolding first_date_field_def by (rule find_Some_takeWhile)
next
  assume "first_date_field kvs = Some f \<and> map_of kvs f = Some (JStr s) \<and> CHR ''T'' \<in> set s"
  then show "availability_date mdy_to_iso kvs = Some (JStr (takeWhile (\<lambda>c. c \<noteq> CHR ''T'') s))"
    by (simp add: availability_date_def)
next
  show "parse_schedule_data mdy_to_iso payload_example =
     Inr (Schedule \<lparr> schedule_data =
            [\<lparr> sched_date = JStr ''2025-10-13'', availabilities = [object_A], availability_count = 1 \<rparr>,
             \<lparr> sched_date = JStr ''2025-10-14'', availabilities = [object_B], availability_count = 1 \<rparr>],
          total_availabilities = 2, total_dates = 2,
          date_range = (Some (JStr ''2025-10-13''), Some (JStr ''2025-10-14'')) \<rparr>)"
    by code_simp
qed

theorem date_resolution_and_grouping_witness:
  "first_date_field [(''Title'', JStr ''C''), (''StartTime'', JStr ''2025-10-13T09:00:00''),
                     (''StartDate'', JStr ''2025-10-12T23:00:00'')] = Some ''StartDate'' \<and>
   ''Date'' \<notin> set (map fst [(''Title'', JStr ''C''), (''StartTime'', JStr ''2025-10-13T09:00:00''),
                     (''StartDate'', JStr ''2025-10-12T23:00:00'')]) \<and>
   CHR ''T'' \<in> set ''2025-10-12T23:00:00'' \<and>
   availability_date no_mdy [(''Title'', JStr ''C''), (''StartTime'', JStr ''2025-10-13T09:00:00''),
                     (''StartDate'', JStr ''2025-10-12T23:00:00'')] = Some (JStr ''2025-10-12'')"
proof -
  let ?kvs = "[(''Title'', JStr ''C''), (''StartTime'', JStr ''2025-10-13T09:00:00''),
                     (''StartDate'', JStr ''2025-10-12T23:00:00'')]"
  have a: "first_date_field ?kvs = Some ''StartDate''" by code_simp
  have b: "map_of ?kvs ''StartDate'' = Some (JStr ''2025-10-12T23:00:00'')" by simp
  have c: "CHR ''T'' \<in> set ''2025-10-12T23:00:00''" by simp
  have d: "takeWhile (\<lambda>c. c \<noteq> CHR ''T'') ''2025-10-12T23:00:00'' = ''2025-10-12''" by simp
  have e: "''Date'' \<in> set (takeWhile (\<lambda>g. g \<noteq> ''StartDate'') date_fields)" by (simp add: date_fields_def)
  show ?thesis
    using date_resolution_and_grouping[of ?kvs "''StartDate''" "''2025-10-12T23:00:00''" no_mdy] a b c d e
    by auto
qed
subsection \<open>Venue matching\<close>

lemma choose_empty: "choose_best_match ratio args [] = (None, 0, None)"
  by (simp add: choose_best_match_def)

lemma dist_score_zero: "dist_score 0 = 100"
  by (simp add: dist_score_def)

lemma dist_score_far: "d > 400 \<Longrightarrow> dist_score d = 0"
  by (simp add: dist_score_def)

lemma boost_bounds: "- 10 \<le> boost args p" "boost args p \<le> 20"
  by (simp_all add: boost_def Let_def)

lemma best_step_facts:
  "fst (snd b) \<le> fst (snd (best_step ratio args b c))"
  "total_score ratio args c \<le> fst (snd (best_step ratio args b c))"
  "best_step ratio args b c = b \<or>
     best_step ratio args b c = (Some c, total_score ratio args c, Some (distance_to args c))"
  by (auto simp: best_step_def)

lemma foldl_best_mono: "fst (snd b) \<le> fst (snd (foldl (best_step ratio args) b cands))"
proof (induction cands arbitrary: b)
  case Nil
  show ?case by simp
next
  case (Cons c cands)
  show ?case
    using Cons.IH[of "best_step ratio args b c"] best_step_facts(1)[of b ratio args c] by simp
qed

lemma foldl_best_upper:
  "q \<in> set cands \<Longrightarrow> total_score ratio args q \<le> fst (snd (foldl (best_step ratio args) b cands))"
proof (induction cands arbitrary: b)
  case Nil
  then show ?case by simp
next
  case (Cons c cands)
  show ?case
  proof (cases "q = c")
    case True
    then show ?thesis
      using foldl_best_mono[of "best_step ratio args b c" ratio args cands]
        best_step_facts(2)[of ratio args c b] by simp
  next
    case False
    with Cons.prems have "q \<in> set cands" by simp
    then show ?thesis using Cons.IH[of "best_step ratio args b c"] by simp
  qed
qed

lemma foldl_best_origin:
  "foldl (best_step ratio args) b cands = b \<or>
   (\<exists>q \<in> set cands. foldl (best_step ratio args) b cands
        = (Some q, total_score ratio args q, Some (distance_to args q)))"
proof (induction cands arbitrary: b)
  case Nil
  show ?case by simp
next
  case (Cons c cands)
  show ?case
    using Cons.IH[of "best_step ratio args b c"] best_step_facts(3)[of ratio args b c] by auto
qed

lemma near_score:
  assumes "\<forall>a. a \<noteq> [] \<longrightarrow> ratio a a = 100"
    and "distance_to args p = 0" "norm_name (display_text p) = norm_name (osm_name args)"
  shows "90 \<le> total_score ratio args p"
proof -
  have "ratio (norm_name (osm_name args)) (norm_name (display_text p)) = 100"
    if "norm_name (osm_name args) \<noteq> []"
    using that assms(1,3) by simp
  then have "100 + boost args p \<le> total_score ratio args p"
    using assms(2) by (simp add: total_score_def Let_def dist_score_zero)
  then show ?thesis using boost_bounds(1)[of args p] by linarith
qed

lemma far_score:
  assumes "\<forall>a b. 0 \<le> ratio a b \<and> ratio a b \<le> 100" "distance_to args q > 400"
  shows "total_score ratio args q \<le> 65"
proof -
  have "ratio (norm_name (osm_name args)) (norm_name (display_text q)) \<le> 100"
    using assms(1) by simp
  then have "total_score ratio args q \<le> 45 + boost args q"
    using assms(2) by (simp add: total_score_def Let_def dist_score_far)
  then show ?thesis using boost_bounds(2)[of args q] by linarith
qed

lemma haversine_same_point: "haversine_m a b a b = 0"
  by (simp add: haversine_m_def radians_def)

lemma haversine_half_turn: "haversine_m 0 (- 90) 0 90 = 6371000 * pi"
  by (simp add: haversine_m_def radians_def)




text \<open>
  Claim C10. For an empty candidate list the matcher returns no place, score 0 and no
  distance, and the driver then appends the source record unchanged.
\<close>

theorem empty_candidates_leave_record:
  "choose_best_match token_set_ratio args [] = (None, 0, None) \<and>
   (places_nearby r = [] \<longrightarrow>
      enrich_record token_set_ratio places_nearby get_place_details cfg r = Inr r \<and>
      enrich token_set_ratio places_nearby get_place_details cfg (r # records) =
        (case enrich token_set_ratio places_nearby get_place_details cfg records of
           Inl e \<Rightarrow> Inl e | Inr out \<Rightarrow> Inr (r # out)))"
proof (intro conjI impI)
  show "choose_best_match token_set_ratio args [] = (None, 0, None)" by (rule choose_empty)
next
  assume e: "places_nearby r = []"
  show 1: "enrich_record token_set_ratio places_nearby get_place_details cfg r = Inr r"
    by (simp add: enrich_record_def e choose_empty within_accept_def beyond_hard_reject_def
        attach_above_threshold_def)
  show "enrich token_set_ratio places_nearby get_place_details cfg (r # records) =
        (case enrich token_set_ratio places_nearby get_place_details cfg records of
           Inl e \<Rightarrow> Inl e | Inr out \<Rightarrow> Inr (r # out))"
    by (simp add: 1)
qed

text \<open>
  Claim C8. A candidate at distance 0 whose normalized name equals the normalized source
  name scores at least the default threshold 70, and strictly more than every candidate
  beyond the default hard-reject radius of 400 m; with it in the list, the place the
  matcher selects is not beyond that radius. \<^verbatim>\<open>token_set_ratio\<close> is any function with values
  between 0 and 100 that gives 100 on two equal strings that are not empty.
\<close>

theorem identical_near_candidate_wins:
  assumes "\<forall>a b. 0 \<le> token_set_ratio a b \<and> token_set_ratio a b \<le> 100"
    and "\<forall>a. a \<noteq> [] \<longrightarrow> token_set_ratio a a = 100"
    and "p \<in> set candidates" "distance_to args p = 0"
    and "norm_name (display_text p) = norm_name (osm_name args)"
  shows "threshold default_enrich_args \<le> total_score token_set_ratio args p \<and>
         (\<forall>q. distance_to args q > hard_reject_over_m default_enrich_args \<longrightarrow>
              total_score token_set_ratio args q < total_score token_set_ratio args p) \<and>
         (\<forall>q score meters. choose_best_match token_set_ratio args candidates = (Some q, score, meters) \<longrightarrow>
              distance_to args q \<le> hard_reject_over_m default_enrich_args \<and>
              meters = Some (distance_to args q) \<and>
              total_score token_set_ratio args p \<le> score)"
proof (intro conjI allI impI)
  have n: "90 \<le> total_score token_set_ratio args p"
    using assms(2,4,5) by (rule near_score[of token_set_ratio args p])
  show "threshold default_enrich_args \<le> total_score token_set_ratio args p"
    using n by (simp add: default_enrich_args_def)
  {
    fix q assume "distance_to args q > hard_reject_over_m default_enrich_args"
    then have "distance_to args q > 400" by (simp add: default_enrich_args_def)
    then have "total_score token_set_ratio args q \<le> 65" using far_score[of token_set_ratio args q] assms(1) by blast
    then show "total_score token_set_ratio args q < total_score token_set_ratio args p"
      using n by linarith
  }
  {
    fix q score meters
    assume c: "choose_best_match token_set_ratio args candidates = (Some q, score, meters)"
    let ?r = "foldl (best_step token_set_ratio args) (None, - 1, None) candidates"
    have r: "?r = (Some q, score, meters)"
      using c by (auto simp: choose_best_match_def Let_def split: option.splits if_splits)
    have up: "total_score token_set_ratio args p \<le> fst (snd ?r)"
      using assms(3) by (rule foldl_best_upper)
    from foldl_best_origin[of token_set_ratio args "(None, - 1, None)" candidates] r
    obtain q' where q': "?r = (Some q', total_score token_set_ratio args q', Some (distance_to args q'))"
      by auto
    have "(Some q', total_score token_set_ratio args q', Some (distance_to args q')) = (Some q, score, meters)"
      using q'[symmetric] r by (rule trans)
    then have eq: "q' = q" "score = total_score token_set_ratio args q" "meters = Some (distance_to args q)"
      by auto
    have s90: "90 \<le> score" using up r n by simp
    have "\<not> distance_to args q > 400"
    proof
      assume "distance_to args q > 400"
      then have "total_score token_set_ratio args q \<le> 65" using far_score[of token_set_ratio args q] assms(1) by blast
      with s90 eq(2) show False by linarith
    qed
    then show "distance_to args q \<le> hard_reject_over_m default_enrich_args"
      by (simp add: default_enrich_args_def)
    show "meters = Some (distance_to args q)" by (rule eq(3))
    show "total_score token_set_ratio args p \<le> score" using up r by simp
  }
qed

lemma norm_name_ray: "norm_name (Some ''Ray Park Courts'') = ''ray''" "norm_name (Some ''Ray Park Tennis'') = ''ray''"
  by code_simp+

theorem empty_candidates_leave_record_witness:
  "no_places equator_venue = [] \<and>
   choose_best_match perfect_ratio (match_args_of default_enrich_args equator_venue) [] = (None, 0, None) \<and>
   enrich_record perfect_ratio no_places no_details default_enrich_args equator_venue = Inr equator_venue \<and>
   enrich perfect_ratio no_places no_details default_enrich_args [equator_venue] = Inr [equator_venue]"
proof -
  have e: "no_places equator_venue = []" by (simp add: no_places_def)
  show ?thesis
    using empty_candidates_leave_record[of perfect_ratio "match_args_of default_enrich_args equator_venue"
        no_places equator_venue no_details default_enrich_args "[]"] e
    by simp
qed


lemma far_beyond: "400 < 6371000 * pi"
  using pi_ge_two by simp


theorem identical_near_candidate_wins_witness:
  "near_place \<in> set [far_place, near_place] \<and>
   distance_to name_args near_place = 0 \<and>
   norm_name (display_text near_place) = norm_name (osm_name name_args) \<and>
   hard_reject_over_m default_enrich_args < distance_to name_args far_place \<and>
   threshold default_enrich_args \<le> total_score exact_ratio name_args near_place \<and>
   total_score exact_ratio name_args far_place < total_score exact_ratio name_args near_place \<and>
   fst (choose_best_match exact_ratio name_args [far_place, near_place]) \<noteq> Some far_place"
proof -
  have r1: "\<forall>a b. 0 \<le> exact_ratio a b \<and> exact_ratio a b \<le> 100" by (simp add: exact_ratio_def)
  have r2: "\<forall>a. a \<noteq> [] \<longrightarrow> exact_ratio a a = 100" by (simp add: exact_ratio_def)
  have m: "near_place \<in> set [far_place, near_place]" by simp
  have d0: "distance_to name_args near_place = 0"
    by (simp add: distance_to_def name_args_def near_place_def place_lat_def place_lon_def
        haversine_same_point)
  have n: "norm_name (display_text near_place) = norm_name (osm_name name_args)"
    by (simp add: display_text_def near_place_def name_args_def norm_name_ray)
  have df: "distance_to name_args far_place = 6371000 * pi"
    by (simp add: distance_to_def name_args_def far_place_def place_lat_def place_lon_def
        haversine_half_turn)
  have far: "hard_reject_over_m default_enrich_args < distance_to name_args far_place"
    using far_beyond by (simp add: df default_enrich_args_def)
  note w = identical_near_candidate_wins[OF r1 r2 m d0 n]
  have "fst (choose_best_match exact_ratio name_args [far_place, near_place]) \<noteq> Some far_place"
  proof
    assume "fst (choose_best_match exact_ratio name_args [far_place, near_place]) = Some far_place"
    then obtain score meters where
      "choose_best_match exact_ratio name_args [far_place, near_place] = (Some far_place, score, meters)"
      by (cases "choose_best_match exact_ratio name_args [far_place, near_place]") auto
    with w have "distance_to name_args far_place \<le> hard_reject_over_m default_enrich_args" by blast
    with far show False by simp
  qed
  with w m d0 n far show ?thesis by blast
qed

end
